theory Spec2Isabelle
  imports Complex_Main "HOL-Library.List_Lexorder" "HOL-Library.Char_ord"
begin

section \<open>Strings and numbers of the Go runtime\<close>

text \<open>
  A Go string is modelled as the list of its characters. The type \<open>char\<close> covers the code
  points below 256; on ASCII text a character is one byte, as in Go. \<open>float64\<close> values
  (seconds) are modelled as real numbers: rounding of the floating-point operations is not
  part of the model. Go's \<open>int\<close> is 64 bits wide; where the source computes on values that
  come from the input without a bound, the wrap-around is written out (\<open>int64\<close>).
\<close>

definition int64 :: "int \<Rightarrow> int" where
  "int64 x = (x + 2 ^ 63) mod 2 ^ 64 - 2 ^ 63"

text \<open>\<open>unicode.IsSpace\<close> on the code points below 256.\<close>

definition isSpace :: "char \<Rightarrow> bool" where
  "isSpace c = (c \<in> set [CHR 0x09, CHR 0x0A, CHR 0x0B, CHR 0x0C, CHR 0x0D, CHR 0x20,
                           CHR 0x85, CHR 0xA0])"

text \<open>\<open>strings.TrimSpace\<close>: leading and trailing white space removed.\<close>

definition TrimSpace :: "string \<Rightarrow> string" where
  "TrimSpace s = rev (dropWhile isSpace (rev (dropWhile isSpace s)))"

text \<open>\<open>strings.TrimRight(s, "Z")\<close>.\<close>

definition TrimRightZ :: "string \<Rightarrow> string" where
  "TrimRightZ s = rev (dropWhile (\<lambda>c. c = CHR ''Z'') (rev s))"

text \<open>\<open>strings.Split(s, sep)\<close> for a separator of one character; the empty string gives
  one empty part.\<close>

fun Split :: "char \<Rightarrow> string \<Rightarrow> string list" where
  "Split sep [] = [[]]"
| "Split sep (c # cs) =
     (if c = sep then [] # Split sep cs
      else (case Split sep cs of p # ps \<Rightarrow> (c # p) # ps | [] \<Rightarrow> [[c]]))"

text \<open>\<open>strings.Join(parts, " ")\<close>.\<close>

fun Join :: "string list \<Rightarrow> string" where
  "Join [] = []"
| "Join [p] = p"
| "Join (p # q # ps) = p @ '' '' @ Join (q # ps)"

datatype num_error = ErrSyntax | ErrRange

definition isDigit :: "char \<Rightarrow> bool" where
  "isDigit c = (48 \<le> (of_char c :: nat) \<and> (of_char c :: nat) \<le> 57)"

definition digits_value :: "string \<Rightarrow> int" where
  "digits_value ds = foldl (\<lambda>n c. n * 10 + (int (of_char c) - 48)) 0 ds"

text \<open>
  \<open>strconv.Atoi\<close>: an optional sign and decimal digits. Like the Go function it returns a
  value together with the error: 0 with a syntax error, the nearest bound with a range
  error.
\<close>

definition Atoi :: "string \<Rightarrow> int \<times> num_error option" where
  "Atoi s =
     (let neg = (s \<noteq> [] \<and> hd s = CHR ''-'');
          body = (if s \<noteq> [] \<and> (hd s = CHR ''-'' \<or> hd s = CHR ''+'') then tl s else s)
      in if body = [] \<or> \<not> list_all isDigit body then (0, Some ErrSyntax)
         else (let v = (if neg then - digits_value body else digits_value body)
               in if v > 2 ^ 63 - 1 then (2 ^ 63 - 1, Some ErrRange)
                  else if v < - (2 ^ 63) then (- (2 ^ 63), Some ErrRange)
                  else (v, None)))"

section \<open>Engine output and its normalisation (pipeline.go)\<close>

record Chunk =
  Path :: string
  Offset :: real
  Index :: int

record Segment =
  Start :: real
  End :: real
  Text :: string

record whisperOffsets =
  off_From :: "int option"
  off_To :: "int option"

record whisperTimestamps =
  ts_From :: string
  ts_To :: string

record whisperSeg =
  seg_Text :: string
  seg_Start :: "real option"
  seg_End :: "real option"
  T0 :: "int option"
  T1 :: "int option"
  Offsets :: "whisperOffsets option"
  Timestamps :: "whisperTimestamps option"
  TimeStanps :: "whisperTimestamps option"

datatype parse_error = BadTimestamp | AtoiError num_error

text \<open>
  \<open>parseTimestamp\<close>: \<open>HH:MM:SS.mmm\<close> or \<open>HH:MM:SS\<close> to seconds. The source cuts the
  fraction to its first three bytes and fills it with zeros to three; \<open>Atoi\<close> on the
  fraction may fail, and then counts as 0. A fraction with a character outside ASCII among
  its first three gives 0 in the source and here.
\<close>

definition parseTimestamp :: "string \<Rightarrow> parse_error + real" where
  "parseTimestamp v0 =
     (let v = TrimSpace v0; parts = Split CHR '':'' v
      in if length parts \<noteq> 3 then Inl BadTimestamp
         else (case Atoi (parts ! 0) of
            (_, Some e) \<Rightarrow> Inl (AtoiError e)
          | (h, None) \<Rightarrow>
         (case Atoi (parts ! 1) of
            (_, Some e) \<Rightarrow> Inl (AtoiError e)
          | (m, None) \<Rightarrow>
         (let secPart = parts ! 2;
              s = (if CHR ''.'' \<in> set secPart
                   then takeWhile (\<lambda>c. c \<noteq> CHR ''.'') secPart else secPart);
              ms = (if CHR ''.'' \<in> set secPart
                    then tl (dropWhile (\<lambda>c. c \<noteq> CHR ''.'') secPart) else ''0'')
          in (case Atoi s of
            (_, Some e) \<Rightarrow> Inl (AtoiError e)
          | (sec, None) \<Rightarrow>
         (let ms1 = TrimRightZ ms;
              ms2 = (if length ms1 > 3 then take 3 ms1 else ms1);
              ms3 = ms2 @ replicate (3 - length ms2) CHR ''0'';
              msInt = (if ms1 = [] then 0 else fst (Atoi ms3))
          in Inr (real_of_int (int64 (h * 3600 + m * 60 + sec))
                  + real_of_int msInt / 1000)))))))"

text \<open>
  \<open>segTimesSeconds\<close>: the start and end of a raw record in seconds; \<open>None\<close> is the
  source's \<open>ok = false\<close>.
\<close>

definition segTimesSeconds :: "whisperSeg \<Rightarrow> (real \<times> real) option" where
  "segTimesSeconds s =
     (if Offsets s \<noteq> None \<and> off_From (the (Offsets s)) \<noteq> None
           \<and> off_To (the (Offsets s)) \<noteq> None
      then Some (real_of_int (the (off_From (the (Offsets s)))) / 1000,
                 real_of_int (the (off_To (the (Offsets s)))) / 1000)
      else if seg_Start s \<noteq> None \<and> seg_End s \<noteq> None
      then Some (the (seg_Start s), the (seg_End s))
      else if T0 s \<noteq> None \<and> T1 s \<noteq> None
      then Some (real_of_int (the (T0 s)) * 0.01, real_of_int (the (T1 s)) * 0.01)
      else (let ts = (if Timestamps s = None then TimeStanps s else Timestamps s)
            in if ts \<noteq> None \<and> ts_From (the ts) \<noteq> [] \<and> ts_To (the ts) \<noteq> []
               then (case (parseTimestamp (ts_From (the ts)), parseTimestamp (ts_To (the ts))) of
                       (Inr a, Inr b) \<Rightarrow> Some (a, b)
                     | _ \<Rightarrow> None)
               else None))"

record whisperResult =
  wr_Language :: string

record whisperJSON =
  w_Text :: string
  w_Language :: string
  w_Result :: "whisperResult option"
  w_Segments :: "whisperSeg list"
  w_Transcription :: "whisperSeg list"

text \<open>
  The bytes handed to \<open>parseWhisperJSON\<close>, seen through \<open>json.Unmarshal\<close>: either the
  decoder rejects them with a message, or they decode to a \<open>whisperJSON\<close> value.
\<close>

datatype json_bytes = Rejected string | Decoded whisperJSON

text \<open>The loop of \<open>parseWhisperJSON\<close> over the raw records, with \<open>out\<close> and \<open>parts\<close>.\<close>

fun parse_records ::
  "whisperSeg list \<Rightarrow> Segment list \<Rightarrow> string list \<Rightarrow> Segment list \<times> string list" where
  "parse_records [] out parts = (out, parts)"
| "parse_records (s # segs) out parts =
     (case segTimesSeconds s of
        None \<Rightarrow> parse_records segs out parts
      | Some (start, end) \<Rightarrow>
          (let txt = TrimSpace (seg_Text s)
           in if txt = [] then parse_records segs out parts
              else parse_records segs
                     (out @ [\<lparr>Start = start, End = end, Text = txt\<rparr>]) (parts @ [txt])))"

definition parseWhisperJSON ::
  "json_bytes \<Rightarrow> string + (Segment list \<times> string \<times> string option)" where
  "parseWhisperJSON b =
     (case b of
        Rejected err \<Rightarrow> Inl (''parse whisper json: '' @ err)
      | Decoded w \<Rightarrow>
          (let lang0 = TrimSpace (w_Language w);
               lang = (if lang0 = [] \<and> w_Result w \<noteq> None
                       then TrimSpace (wr_Language (the (w_Result w))) else lang0);
               langPtr = (if lang \<noteq> [] then Some lang else None);
               segs = (if length (w_Segments w) = 0 then w_Transcription w else w_Segments w);
               (out, parts) = parse_records segs [] [];
               text0 = TrimSpace (w_Text w);
               text = (if text0 = [] then Join parts else text0)
           in Inr (out, text, langPtr)))"

text \<open>
  One run of the engine on a chunk, as \<open>transcribeChunk\<close> sees it: the command fails, or
  its output file cannot be read, or the file's bytes are there.
\<close>

datatype whisper_run = CmdFailed string | ReadFailed string | OutputFile json_bytes

definition transcribeChunk ::
  "whisper_run \<Rightarrow> string + (Segment list \<times> string \<times> string option)" where
  "transcribeChunk run =
     (case run of
        CmdFailed err \<Rightarrow> Inl (''whisper failed: '' @ err)
      | ReadFailed err \<Rightarrow> Inl (''read whisper json: '' @ err)
      | OutputFile b \<Rightarrow> parseWhisperJSON b)"

text \<open>
  One run of the decoder, as \<open>chunkAudio\<close> sees it: the command fails, or the glob fails,
  or the glob returns the chunk files that the command wrote.
\<close>

datatype ffmpeg_run = FfmpegFailed string | GlobFailed string | ChunkFiles "string list"

definition chunkAudio :: "int \<Rightarrow> ffmpeg_run \<Rightarrow> string + Chunk list" where
  "chunkAudio chunkSeconds run =
     (case run of
        FfmpegFailed err \<Rightarrow> Inl (''ffmpeg chunking failed: '' @ err)
      | GlobFailed err \<Rightarrow> Inl err
      | ChunkFiles matches \<Rightarrow>
          Inr (map (\<lambda>(i, p). \<lparr>Path = p,
                               Offset = real_of_int (int64 (int i * chunkSeconds)),
                               Index = int i + 1\<rparr>)
                   (enumerate 0 (sort matches))))"

text \<open>
  The statements of the transaction in \<open>CreateTranscriptWithSegments\<close> (store.go). Which
  of them fail,
  and with which message, is given from outside (\<open>Exec k\<close> is the \<open>k\<close>-th execution of the
  prepared segment insert, counted from 0).
\<close>

datatype tx_step = BeginTx | InsertTranscript | LastInsertId | Prepare | Exec nat | Commit

type_synonym db_faults = "tx_step \<Rightarrow> string option"

text \<open>What the pipeline meets outside the program.\<close>

record env =
  MkdirTemp :: "string + string"
  ffmpeg :: ffmpeg_run
  whisper :: "Chunk \<Rightarrow> whisper_run"
  sqlite :: db_faults

record Runner =
  FFmpegPath :: string
  WhisperPath :: string
  WhisperModelPath :: string
  ChunkSeconds :: int

record Result =
  res_Language :: "string option"
  res_Text :: string
  res_Segments :: "Segment list"
  res_Duration :: "real option"

definition empty_Result :: Result where
  "empty_Result = \<lparr>res_Language = None, res_Text = [], res_Segments = [], res_Duration = None\<rparr>"

definition shift_segment :: "real \<Rightarrow> Segment \<Rightarrow> Segment" where
  "shift_segment off s = \<lparr>Start = Start s + off, End = End s + off, Text = Text s\<rparr>"

text \<open>The loop of \<open>Run\<close> over the chunks, with \<open>all\<close>, \<open>parts\<close> and \<open>lang\<close>.\<close>

fun run_chunks ::
  "env \<Rightarrow> Chunk list \<Rightarrow> Segment list \<Rightarrow> string list \<Rightarrow> string option
     \<Rightarrow> string + (Segment list \<times> string list \<times> string option)" where
  "run_chunks e [] all parts lang = Inr (all, parts, lang)"
| "run_chunks e (ch # chs) all parts lang =
     (case transcribeChunk (whisper e ch) of
        Inl err \<Rightarrow> Inl err
      | Inr (seg, text, chunkLang) \<Rightarrow>
          run_chunks e chs
            (all @ map (shift_segment (Offset ch)) seg)
            (if TrimSpace text \<noteq> [] then parts @ [TrimSpace text] else parts)
            (if lang = None \<and> chunkLang \<noteq> None \<and> TrimSpace (the chunkLang) \<noteq> []
             then chunkLang else lang))"

text \<open>The duration that \<open>Run\<close> derives: the largest \<open>End\<close>, nil without segments.\<close>

definition derive_duration :: "Segment list \<Rightarrow> real option" where
  "derive_duration all =
     (if length all > 0
      then Some (foldl (\<lambda>maxEnd s. if End s > maxEnd then End s else maxEnd) (End (all ! 0)) all)
      else None)"

text \<open>\<open>Run\<close> returns the chunks, the result and the error (\<open>None\<close> is nil).\<close>

definition Run :: "Runner \<Rightarrow> env \<Rightarrow> Chunk list \<times> Result \<times> string option" where
  "Run r e =
     (if ChunkSeconds r \<le> 0 then ([], empty_Result, Some ''invalid chunk seconds'')
      else if TrimSpace (FFmpegPath r) = [] then ([], empty_Result, Some ''FFmpegPath is required'')
      else if TrimSpace (WhisperPath r) = [] then ([], empty_Result, Some ''WhisperPath is required'')
      else if TrimSpace (WhisperModelPath r) = []
      then ([], empty_Result, Some ''WhisperModelPath is required'')
      else (case MkdirTemp e of
        Inl err \<Rightarrow> ([], empty_Result, Some err)
      | Inr workDir \<Rightarrow>
      (case chunkAudio (ChunkSeconds r) (ffmpeg e) of
        Inl err \<Rightarrow> ([], empty_Result, Some err)
      | Inr chunks \<Rightarrow>
      if length chunks = 0 then ([], empty_Result, Some ''no chunks produced'')
      else (case run_chunks e chunks [] [] None of
        Inl err \<Rightarrow> (chunks, empty_Result, Some err)
      | Inr (all, parts, lang) \<Rightarrow>
          (chunks,
           \<lparr>res_Language = lang, res_Text = Join parts, res_Segments = all,
            res_Duration = derive_duration all\<rparr>,
           None)))))"

section \<open>The store (store.go)\<close>

record job_row =
  job_conversation_id :: "int option"
  job_type :: string
  status :: string
  progress :: int
  total_chunks :: "int option"
  current_chunk :: "int option"
  result :: "string option"
  transcript_id :: "int option"

record transcript_row =
  tr_id :: int
  tr_conversation_id :: int
  file_name :: string
  transcript_text :: string
  duration :: "real option"
  language :: "string option"
  transcription_model :: "string option"
  audio_file_url :: string

record segment_row =
  sg_transcript_id :: int
  sg_start_time :: real
  sg_end_time :: real
  sg_text :: string

text \<open>
  The tables that the pipeline touches. \<open>jobs_seq\<close> and \<open>transcripts_seq\<close> are the last
  row ids handed out. \<open>journal\<close> is not a table: it lists the states of the job rows after
  each committed write, in the order of the writes, which is what successive reads of a
  job row can observe.
\<close>

record store =
  processing_jobs :: "int \<rightharpoonup> job_row"
  jobs_seq :: int
  journal :: "(int \<times> job_row) list"
  transcripts :: "transcript_row list"
  transcript_segments :: "segment_row list"
  transcripts_seq :: int

definition CreateJob :: "store \<Rightarrow> int \<Rightarrow> string \<Rightarrow> int \<Rightarrow> int \<times> store" where
  "CreateJob s conversationID jobType initialProgress =
     (let jid = jobs_seq s + 1;
          row = \<lparr>job_conversation_id = Some conversationID, job_type = jobType,
                 status = ''pending'', progress = initialProgress, total_chunks = None,
                 current_chunk = None, result = None, transcript_id = None\<rparr>
      in (jid, s\<lparr>processing_jobs := (processing_jobs s)(jid \<mapsto> row), jobs_seq := jid,
                 journal := journal s @ [(jid, row)]\<rparr>))"

text \<open>SQL's \<open>COALESCE(?, column)\<close>.\<close>

definition COALESCE :: "'a option \<Rightarrow> 'a option \<Rightarrow> 'a option" where
  "COALESCE v col = (case v of Some x \<Rightarrow> Some x | None \<Rightarrow> col)"

text \<open>The \<open>SET\<close> clause of \<open>UpdateJobProgress\<close> on one row.\<close>

definition set_progress ::
  "job_row \<Rightarrow> string \<Rightarrow> int \<Rightarrow> int option \<Rightarrow> int option \<Rightarrow> string option \<Rightarrow> int option
     \<Rightarrow> job_row" where
  "set_progress row st pr totalChunks currentChunk res transcriptID =
     row\<lparr>status := st,
         progress := pr,
         total_chunks := COALESCE totalChunks (total_chunks row),
         current_chunk := COALESCE currentChunk (current_chunk row),
         result := COALESCE res (result row),
         transcript_id := COALESCE transcriptID (transcript_id row)\<rparr>"

text \<open>
  \<open>UpdateJobProgress\<close>: the update of the row \<open>WHERE id = jobID\<close>; no row, no change. The
  statement itself is taken to succeed (the worker discards its error).
\<close>

definition UpdateJobProgress ::
  "store \<Rightarrow> int \<Rightarrow> string \<Rightarrow> int \<Rightarrow> int option \<Rightarrow> int option \<Rightarrow> string option \<Rightarrow> int option
     \<Rightarrow> store" where
  "UpdateJobProgress s jobID st pr totalChunks currentChunk res transcriptID =
     (case processing_jobs s jobID of
        None \<Rightarrow> s
      | Some row \<Rightarrow>
          (let row' = set_progress row st pr totalChunks currentChunk res transcriptID
           in s\<lparr>processing_jobs := (processing_jobs s)(jobID \<mapsto> row'),
                journal := journal s @ [(jobID, row')]\<rparr>))"

record TranscriptSegmentInput =
  StartTime :: real
  EndTime :: real
  in_Text :: string

text \<open>\<open>stringsTrim\<close> of store.go: blanks, tabs, line feeds and carriage returns.\<close>

definition isBlank :: "char \<Rightarrow> bool" where
  "isBlank c = (c = CHR 0x20 \<or> c = CHR 0x0A \<or> c = CHR 0x09 \<or> c = CHR 0x0D)"

definition stringsTrim :: "string \<Rightarrow> string" where
  "stringsTrim s = rev (dropWhile isBlank (rev (dropWhile isBlank s)))"

text \<open>The loop over the segments inside the transaction; \<open>k\<close> counts the executions.\<close>

fun insert_segments ::
  "db_faults \<Rightarrow> int \<Rightarrow> nat \<Rightarrow> TranscriptSegmentInput list \<Rightarrow> segment_row list
     \<Rightarrow> string + segment_row list" where
  "insert_segments db tid k [] rows = Inr rows"
| "insert_segments db tid k (seg # segs) rows =
     (if stringsTrim (in_Text seg) = [] then insert_segments db tid k segs rows
      else (case db (Exec k) of
              Some err \<Rightarrow> Inl err
            | None \<Rightarrow>
                insert_segments db tid (Suc k) segs
                  (rows @ [\<lparr>sg_transcript_id = tid, sg_start_time = StartTime seg,
                            sg_end_time = EndTime seg, sg_text = in_Text seg\<rparr>])))"

text \<open>
  \<open>CreateTranscriptWithSegments\<close>. The transaction works on its own copy \<open>tx\<close> of the
  tables; \<open>Commit\<close> makes the copy the store, and every other return leaves the store as it
  was (the deferred \<open>Rollback\<close>).
\<close>

definition CreateTranscriptWithSegments ::
  "db_faults \<Rightarrow> store \<Rightarrow> int \<Rightarrow> string \<Rightarrow> string \<Rightarrow> real option \<Rightarrow> string option
     \<Rightarrow> string option \<Rightarrow> string \<Rightarrow> TranscriptSegmentInput list \<Rightarrow> (string + int) \<times> store" where
  "CreateTranscriptWithSegments db s conversationID fileName transcriptText dur lang model
       audioURL segments =
     (case db BeginTx of
        Some err \<Rightarrow> (Inl err, s)
      | None \<Rightarrow>
     (case db InsertTranscript of
        Some err \<Rightarrow> (Inl err, s)
      | None \<Rightarrow>
     (let transcriptID = transcripts_seq s + 1;
          tx = s\<lparr>transcripts := transcripts s @
                     [\<lparr>tr_id = transcriptID, tr_conversation_id = conversationID,
                       file_name = fileName, transcript_text = transcriptText,
                       duration = dur, language = lang, transcription_model = model,
                       audio_file_url = audioURL\<rparr>],
                 transcripts_seq := transcriptID\<rparr>
      in (case db LastInsertId of
        Some err \<Rightarrow> (Inl err, s)
      | None \<Rightarrow>
     (case (if length segments > 0
            then (case db Prepare of
                    Some err \<Rightarrow> Inl err
                  | None \<Rightarrow> insert_segments db transcriptID 0 segments (transcript_segments tx))
            else Inr (transcript_segments tx)) of
        Inl err \<Rightarrow> (Inl err, s)
      | Inr rows \<Rightarrow>
     (case db Commit of
        Some err \<Rightarrow> (Inl err, s)
      | None \<Rightarrow> (Inr transcriptID, tx\<lparr>transcript_segments := rows\<rparr>)))))))"

section \<open>The worker (queue.go)\<close>

record Job =
  JobID :: int
  ConversationID :: int
  ProfileID :: int
  AudioPath :: string
  FileName :: string
  GenerateSummary :: bool
  GenerateActionItems :: bool

text \<open>\<open>fmt.Sprintf("%d", n)\<close>.\<close>

function dec_digits :: "nat \<Rightarrow> string" where
  "dec_digits n =
     (if n < 10 then [char_of (48 + n)] else dec_digits (n div 10) @ [char_of (48 + n mod 10)])"
  by pat_completeness auto
termination
  by (relation "measure (\<lambda>n. n)") auto

declare dec_digits.simps [simp del]

definition Itoa :: "int \<Rightarrow> string" where
  "Itoa n = (if n < 0 then CHR ''-'' # dec_digits (nat (- n)) else dec_digits (nat n))"

text \<open>\<open>max\<close> of queue.go.\<close>

definition max_go :: "int \<Rightarrow> int \<Rightarrow> int" where
  "max_go a b = (if a > b then a else b)"

text \<open>
  Where \<open>process\<close> returns: after a failure of one of its stages, with the message that it
  stores, or at its end, with the id of the transcript.
\<close>

datatype stage = Configure | TempDir | Chunking | Transcription int | Persistence

datatype exit = Failed stage string | Completed int

text \<open>
  The loop of \<open>process\<close> over the chunks. \<open>i\<close> is the loop index; a failed chunk ends the
  loop with its number and message. The operands of the integer division are not negative,
  where Go's \<open>/\<close> is \<open>div\<close>; \<open>current\<close> is at most the length of a slice, so that
  \<open>65 * current\<close> stays far below \<open>2 ^ 63\<close>.
\<close>

fun process_chunks ::
  "env \<Rightarrow> int \<Rightarrow> int \<Rightarrow> nat \<Rightarrow> Chunk list \<Rightarrow> Segment list \<Rightarrow> string list \<Rightarrow> string option
     \<Rightarrow> store
     \<Rightarrow> ((int \<times> string) + (Segment list \<times> string list \<times> string option)) \<times> store" where
  "process_chunks e jobID total' i [] combined textParts lang s =
     (Inr (combined, textParts, lang), s)"
| "process_chunks e jobID total' i (ch # chs) combined textParts lang s =
     (let current = int i + 1;
          pr = 15 + (65 * current) div max_go 1 total';
          s1 = UpdateJobProgress s jobID ''processing'' pr None (Some current) None None
      in case transcribeChunk (whisper e ch) of
           Inl msg \<Rightarrow>
             (Inl (current, msg),
              UpdateJobProgress s1 jobID ''failed'' 100 None (Some current) (Some msg) None)
         | Inr (segs, txt, chunkLang) \<Rightarrow>
             process_chunks e jobID total' (Suc i) chs
               (combined @ map (shift_segment (Offset ch)) segs)
               (if TrimSpace txt \<noteq> [] then textParts @ [TrimSpace txt] else textParts)
               (if lang = None \<and> chunkLang \<noteq> None \<and> TrimSpace (the chunkLang) \<noteq> []
                then chunkLang else lang)
               s1)"

text \<open>\<open>process\<close>; \<open>p\<close> is the queue's pipeline (\<open>None\<close> is nil).\<close>

definition process :: "Runner option \<Rightarrow> env \<Rightarrow> Job \<Rightarrow> store \<Rightarrow> exit \<times> store" where
  "process p e j s0 =
     (let s1 = UpdateJobProgress s0 (JobID j) ''processing'' 10 None None None None
      in if p = None
         then (Failed Configure ''pipeline not configured'',
               UpdateJobProgress s1 (JobID j) ''failed'' 100 None None
                 (Some ''pipeline not configured'') None)
         else (case MkdirTemp e of
           Inl msg \<Rightarrow>
             (Failed TempDir msg,
              UpdateJobProgress s1 (JobID j) ''failed'' 100 None None (Some msg) None)
         | Inr workDir \<Rightarrow>
         (case chunkAudio (ChunkSeconds (the p)) (ffmpeg e) of
           Inl msg \<Rightarrow>
             (Failed Chunking msg,
              UpdateJobProgress s1 (JobID j) ''failed'' 100 None None (Some msg) None)
         | Inr chunks \<Rightarrow>
         (let total' = int (length chunks);
              s2 = UpdateJobProgress s1 (JobID j) ''processing'' 15 (Some total') (Some 0)
                     None None
          in (case process_chunks e (JobID j) total' 0 chunks [] [] None s2 of
           (Inl (current, msg), s3) \<Rightarrow> (Failed (Transcription current) msg, s3)
         | (Inr (combined, textParts, lang), s3) \<Rightarrow>
         (let s4 = UpdateJobProgress s3 (JobID j) ''processing'' 85 None (Some total') None None;
              audioURL = ''/api/audio/'' @ Itoa (ConversationID j);
              model = ''whisper.cpp'';
              transcriptText = Join textParts;
              inputSegments =
                map (\<lambda>sg. \<lparr>StartTime = Start sg, EndTime = End sg, in_Text = Text sg\<rparr>)
                    (filter (\<lambda>sg. TrimSpace (Text sg) \<noteq> []) combined)
          in (case CreateTranscriptWithSegments (sqlite e) s4 (ConversationID j) (FileName j)
                     transcriptText None lang (Some model) audioURL inputSegments of
           (Inl msg, s5) \<Rightarrow>
             (Failed Persistence msg,
              UpdateJobProgress s5 (JobID j) ''failed'' 100 None None (Some msg) None)
         | (Inr transcriptID, s5) \<Rightarrow>
             (Completed transcriptID,
              UpdateJobProgress s5 (JobID j) ''completed'' 100 None (Some total')
                (Some ''success'') (Some transcriptID)))))))))"

section \<open>The fallback chain in the specification's words\<close>

text \<open>
  The specification describes the timestamps of a raw record by four strategies, tried in
  a fixed order. Each strategy is written here on its own, to be compared with
  \<open>segTimesSeconds\<close>.
\<close>

definition strategy_offsets_ms :: "whisperSeg \<Rightarrow> (real \<times> real) option" where
  "strategy_offsets_ms s =
     (case Offsets s of
        None \<Rightarrow> None
      | Some off \<Rightarrow>
          (case (off_From off, off_To off) of
             (Some f, Some t) \<Rightarrow> Some (real_of_int f / 1000, real_of_int t / 1000)
           | _ \<Rightarrow> None))"

definition strategy_start_end :: "whisperSeg \<Rightarrow> (real \<times> real) option" where
  "strategy_start_end s =
     (case (seg_Start s, seg_End s) of (Some a, Some b) \<Rightarrow> Some (a, b) | _ \<Rightarrow> None)"

definition strategy_frames :: "whisperSeg \<Rightarrow> (real \<times> real) option" where
  "strategy_frames s =
     (case (T0 s, T1 s) of
        (Some a, Some b) \<Rightarrow> Some (real_of_int a * 0.01, real_of_int b * 0.01)
      | _ \<Rightarrow> None)"

definition strategy_timestamps :: "whisperSeg \<Rightarrow> (real \<times> real) option" where
  "strategy_timestamps s =
     (case (case Timestamps s of None \<Rightarrow> TimeStanps s | Some t \<Rightarrow> Some t) of
        None \<Rightarrow> None
      | Some ts \<Rightarrow>
          if ts_From ts = [] \<or> ts_To ts = [] then None
          else (case (parseTimestamp (ts_From ts), parseTimestamp (ts_To ts)) of
                  (Inr a, Inr b) \<Rightarrow> Some (a, b)
                | _ \<Rightarrow> None))"

fun first_usable :: "('a \<Rightarrow> 'b option) list \<Rightarrow> 'a \<Rightarrow> 'b option" where
  "first_usable [] x = None"
| "first_usable (f # fs) x = (case f x of Some y \<Rightarrow> Some y | None \<Rightarrow> first_usable fs x)"

definition fallback_chain :: "(whisperSeg \<Rightarrow> (real \<times> real) option) list" where
  "fallback_chain = [strategy_offsets_ms, strategy_start_end, strategy_frames, strategy_timestamps]"

section \<open>Chunks in the specification's words\<close>

text \<open>
  What one chunk contributes, written as the specification says it: the raw records that
  are read, the records that survive (a strategy gives their times and their trimmed text is
  not empty), the segments made of them, and the text and language of the chunk.
  \<open>raw_records\<close> is the list that \<open>parseWhisperJSON\<close> reads: \<open>segments\<close>, or
  \<open>transcription\<close> when \<open>segments\<close> is empty. \<open>trimmed\<close> says that a string neither
  starts nor ends with white space.
\<close>

definition usable_record :: "whisperSeg \<Rightarrow> bool" where
  "usable_record s = (segTimesSeconds s \<noteq> None \<and> TrimSpace (seg_Text s) \<noteq> [])"

definition normalise_record :: "whisperSeg \<Rightarrow> Segment" where
  "normalise_record s = \<lparr>Start = fst (the (segTimesSeconds s)), End = snd (the (segTimesSeconds s)),
                          Text = TrimSpace (seg_Text s)\<rparr>"

definition raw_records :: "whisperJSON \<Rightarrow> whisperSeg list" where
  "raw_records w = (if w_Segments w = [] then w_Transcription w else w_Segments w)"

definition chunk_segments :: "whisperJSON \<Rightarrow> Segment list" where
  "chunk_segments w = map normalise_record (filter usable_record (raw_records w))"

definition chunk_text :: "whisperJSON \<Rightarrow> string" where
  "chunk_text w =
     (if TrimSpace (w_Text w) \<noteq> [] then TrimSpace (w_Text w)
      else Join (map Text (chunk_segments w)))"

definition chunk_language :: "whisperJSON \<Rightarrow> string option" where
  "chunk_language w =
     (let lang = (if TrimSpace (w_Language w) = [] \<and> w_Result w \<noteq> None
                  then TrimSpace (wr_Language (the (w_Result w))) else TrimSpace (w_Language w))
      in if lang \<noteq> [] then Some lang else None)"

definition trimmed :: "string \<Rightarrow> bool" where
  "trimmed s = (s = [] \<or> (\<not> isSpace (hd s) \<and> \<not> isSpace (last s)))"

definition pick_language :: "string option \<Rightarrow> string option \<Rightarrow> string option" where
  "pick_language lang chunkLang =
     (if lang = None \<and> chunkLang \<noteq> None \<and> TrimSpace (the chunkLang) \<noteq> [] then chunkLang
      else lang)"

definition merged_segments :: "(Chunk \<Rightarrow> whisperJSON) \<Rightarrow> Chunk list \<Rightarrow> Segment list" where
  "merged_segments docs chunks =
     concat (map (\<lambda>ch. map (shift_segment (Offset ch)) (chunk_segments (docs ch))) chunks)"

definition merged_text :: "(Chunk \<Rightarrow> whisperJSON) \<Rightarrow> Chunk list \<Rightarrow> string" where
  "merged_text docs chunks = Join (filter (\<lambda>t. t \<noteq> []) (map (\<lambda>ch. chunk_text (docs ch)) chunks))"

definition merged_language :: "(Chunk \<Rightarrow> whisperJSON) \<Rightarrow> Chunk list \<Rightarrow> string option" where
  "merged_language docs chunks = foldl pick_language None (map (\<lambda>ch. chunk_language (docs ch)) chunks)"

text \<open>The row that the prepared statement inserts for one segment.\<close>

definition segment_row_of :: "int \<Rightarrow> TranscriptSegmentInput \<Rightarrow> segment_row" where
  "segment_row_of tid seg = \<lparr>sg_transcript_id = tid, sg_start_time = StartTime seg,
                             sg_end_time = EndTime seg, sg_text = in_Text seg\<rparr>"

section \<open>The checkpoints of a job in the specification's words\<close>

text \<open>
  The rows that the specification's table of transitions lists for a job with \<open>n\<close> chunks,
  over the row as the worker found it: claimed, segmented, chunk \<open>i\<close> of \<open>n\<close> (with the
  specification's formula for the progress), persisting, and completed with the transcript
  \<open>tid\<close>.
\<close>

definition claimed :: "job_row \<Rightarrow> job_row" where
  "claimed row = row\<lparr>status := ''processing'', progress := 10\<rparr>"

definition segmented :: "int \<Rightarrow> job_row \<Rightarrow> job_row" where
  "segmented n row = row\<lparr>status := ''processing'', progress := 15, total_chunks := Some n,
                          current_chunk := Some 0\<rparr>"

definition chunk_checkpoint :: "int \<Rightarrow> int \<Rightarrow> job_row \<Rightarrow> job_row" where
  "chunk_checkpoint n i row =
     row\<lparr>status := ''processing'',
         progress := 15 + \<lfloor>65 * real_of_int i / real_of_int n\<rfloor>,
         total_chunks := Some n, current_chunk := Some i\<rparr>"

definition persist_begins :: "int \<Rightarrow> job_row \<Rightarrow> job_row" where
  "persist_begins n row = row\<lparr>status := ''processing'', progress := 85, total_chunks := Some n,
                               current_chunk := Some n\<rparr>"

definition persisted :: "int \<Rightarrow> int \<Rightarrow> job_row \<Rightarrow> job_row" where
  "persisted n tid row = row\<lparr>status := ''completed'', progress := 100, total_chunks := Some n,
                              current_chunk := Some n, result := Some ''success'',
                              transcript_id := Some tid\<rparr>"

definition success_checkpoints :: "int \<Rightarrow> int \<Rightarrow> job_row \<Rightarrow> job_row list" where
  "success_checkpoints n tid row =
     [claimed row, segmented n row]
     @ map (\<lambda>i. chunk_checkpoint n (int i) row) [1 ..< Suc (nat n)]
     @ [persist_begins n row, persisted n tid row]"

text \<open>The rows of a job that a run of the worker added to the journal.\<close>

definition written :: "store \<Rightarrow> store \<Rightarrow> job_row list" where
  "written s s' = map snd (drop (length (journal s)) (journal s'))"

section \<open>Concrete inputs\<close>

text \<open>
  A store with one job, as the upload handler leaves it (\<open>CreateJob\<close> with progress 5),
  the job as it is enqueued, and a configured pipeline with chunks of 15 seconds.
\<close>

definition empty_store :: store where
  "empty_store = \<lparr>processing_jobs = Map.empty, jobs_seq = 0, journal = [], transcripts = [],
                   transcript_segments = [], transcripts_seq = 0\<rparr>"

definition pending_row :: job_row where
  "pending_row = \<lparr>job_conversation_id = Some 7, job_type = ''transcription'',
                   status = ''pending'', progress = 5, total_chunks = None,
                   current_chunk = None, result = None, transcript_id = None\<rparr>"

definition demo_store :: store where
  "demo_store = snd (CreateJob empty_store 7 ''transcription'' 5)"

definition demo_job :: Job where
  "demo_job = \<lparr>JobID = 1, ConversationID = 7, ProfileID = 1, AudioPath = ''audio.mp3'',
                FileName = ''audio.mp3'', GenerateSummary = False, GenerateActionItems = False\<rparr>"

definition demo_runner :: Runner where
  "demo_runner = \<lparr>FFmpegPath = ''ffmpeg'', WhisperPath = ''whisper'',
                   WhisperModelPath = ''ggml-base.bin'', ChunkSeconds = 15\<rparr>"

text \<open>
  Engine outputs: one with a chunk-level text and no usable record, one with two records
  in milliseconds and no chunk-level text.
\<close>

definition doc_text_only :: whisperJSON where
  "doc_text_only = \<lparr>w_Text = ''hello'', w_Language = ''en'', w_Result = None,
                     w_Segments = [], w_Transcription = []\<rparr>"

definition doc_two_records :: whisperJSON where
  "doc_two_records =
     \<lparr>w_Text = [], w_Language = [], w_Result = Some \<lparr>wr_Language = ''en''\<rparr>,
      w_Segments = [],
      w_Transcription =
        [\<lparr>seg_Text = '' good morning'', seg_Start = None, seg_End = None, T0 = None, T1 = None,
          Offsets = Some \<lparr>off_From = Some 1000, off_To = Some 2500\<rparr>,
          Timestamps = Some \<lparr>ts_From = ''00:00:01.000'', ts_To = ''00:00:02.500''\<rparr>,
          TimeStanps = None\<rparr>,
         \<lparr>seg_Text = ''  '', seg_Start = None, seg_End = None, T0 = Some 250, T1 = Some 300,
          Offsets = None, Timestamps = None, TimeStanps = None\<rparr>,
         \<lparr>seg_Text = '' everyone'', seg_Start = None, seg_End = None, T0 = Some 300,
          T1 = Some 450, Offsets = None, Timestamps = None, TimeStanps = None\<rparr>]\<rparr>"


definition env_text_only :: env where
  "env_text_only = \<lparr>MkdirTemp = Inr ''/tmp/listen-job-1'',
                     ffmpeg = ChunkFiles [''/tmp/listen-job-1/chunk-000.wav''],
                     whisper = (\<lambda>ch. OutputFile (Decoded doc_text_only)),
                     sqlite = (\<lambda>step. None)\<rparr>"

definition three_files :: "string list" where
  "three_files = [''/tmp/listen-job-1/chunk-000.wav'', ''/tmp/listen-job-1/chunk-001.wav'',
                  ''/tmp/listen-job-1/chunk-002.wav'']"

definition env_three_chunks :: env where
  "env_three_chunks = \<lparr>MkdirTemp = Inr ''/tmp/listen-job-1'', ffmpeg = ChunkFiles three_files,
                        whisper = (\<lambda>ch. OutputFile (Decoded doc_two_records)),
                        sqlite = (\<lambda>step. None)\<rparr>"

definition env_second_chunk_fails :: env where
  "env_second_chunk_fails =
     \<lparr>MkdirTemp = Inr ''/tmp/listen-job-1'', ffmpeg = ChunkFiles three_files,
      whisper = (\<lambda>ch. if Index ch = 2 then CmdFailed ''exit status 1''
                       else OutputFile (Decoded doc_two_records)),
      sqlite = (\<lambda>step. None)\<rparr>"

text \<open>An engine output without text and without records, and one chunk with that output.\<close>

definition doc_silence :: whisperJSON where
  "doc_silence = \<lparr>w_Text = ''  '', w_Language = ''en'', w_Result = None,
                   w_Segments = [], w_Transcription = []\<rparr>"

definition env_silence :: env where
  "env_silence = \<lparr>MkdirTemp = Inr ''/tmp/listen-job-1'',
                   ffmpeg = ChunkFiles [''/tmp/listen-job-1/chunk-000.wav''],
                   whisper = (\<lambda>ch. OutputFile (Decoded doc_silence)),
                   sqlite = (\<lambda>step. None)\<rparr>"



section \<open>Timestamps of a raw record\<close>

lemma strategy_offsets_ms_if:
  "strategy_offsets_ms s =
     (if Offsets s \<noteq> None \<and> off_From (the (Offsets s)) \<noteq> None
           \<and> off_To (the (Offsets s)) \<noteq> None
      then Some (real_of_int (the (off_From (the (Offsets s)))) / 1000,
                 real_of_int (the (off_To (the (Offsets s)))) / 1000)
      else None)"
  by (auto simp: strategy_offsets_ms_def split: option.splits)

lemma strategy_start_end_if:
  "strategy_start_end s =
     (if seg_Start s \<noteq> None \<and> seg_End s \<noteq> None
      then Some (the (seg_Start s), the (seg_End s)) else None)"
  by (auto simp: strategy_start_end_def split: option.splits)

lemma strategy_frames_if:
  "strategy_frames s =
     (if T0 s \<noteq> None \<and> T1 s \<noteq> None
      then Some (real_of_int (the (T0 s)) * 0.01, real_of_int (the (T1 s)) * 0.01) else None)"
  by (auto simp: strategy_frames_def split: option.splits)

lemma strategy_timestamps_if:
  "strategy_timestamps s =
     (let ts = (if Timestamps s = None then TimeStanps s else Timestamps s)
      in if ts \<noteq> None \<and> ts_From (the ts) \<noteq> [] \<and> ts_To (the ts) \<noteq> []
         then (case (parseTimestamp (ts_From (the ts)), parseTimestamp (ts_To (the ts))) of
                 (Inr a, Inr b) \<Rightarrow> Some (a, b)
               | _ \<Rightarrow> None)
         else None)"
  by (auto simp: strategy_timestamps_def split: option.splits)

lemma first_usable_chain:
  "first_usable fallback_chain s =
     (case strategy_offsets_ms s of
        Some y \<Rightarrow> Some y
      | None \<Rightarrow>
          (case strategy_start_end s of
             Some y \<Rightarrow> Some y
           | None \<Rightarrow>
               (case strategy_frames s of
                  Some y \<Rightarrow> Some y
                | None \<Rightarrow> strategy_timestamps s)))"
  by (simp add: fallback_chain_def split: option.splits)

lemma segTimesSeconds_chain: "segTimesSeconds s = first_usable fallback_chain s"
  unfolding first_usable_chain strategy_offsets_ms_if strategy_start_end_if
    strategy_frames_if strategy_timestamps_if segTimesSeconds_def
  by (simp del: split_paired_All split_paired_Ex)


section \<open>Normalising the output of one chunk\<close>

lemma parse_records_filter:
  "parse_records segs out parts =
     (out @ map normalise_record (filter usable_record segs),
      parts @ map Text (map normalise_record (filter usable_record segs)))"
  by (induction segs arbitrary: out parts)
     (auto simp: usable_record_def normalise_record_def Let_def split: option.splits)

lemma parseWhisperJSON_Decoded:
  "parseWhisperJSON (Decoded w) = Inr (chunk_segments w, chunk_text w, chunk_language w)"
  by (simp add: parseWhisperJSON_def parse_records_filter chunk_segments_def chunk_text_def
      chunk_language_def raw_records_def Let_def)

lemma dropWhile_hd_id: "xs \<noteq> [] \<Longrightarrow> \<not> P (hd xs) \<Longrightarrow> dropWhile P xs = xs"
  by (cases xs) auto

lemma TrimSpace_trimmed:
  assumes "trimmed s"
  shows "TrimSpace s = s"
proof (cases "s = []")
  case True
  then show ?thesis by (simp add: TrimSpace_def)
next
  case False
  with assms have h: "\<not> isSpace (hd s)" and l: "\<not> isSpace (last s)"
    by (auto simp: trimmed_def)
  from False h have 1: "dropWhile isSpace s = s"
    by (rule dropWhile_hd_id)
  have "rev s \<noteq> []" and "hd (rev s) = last s"
    using False by (simp_all add: hd_rev)
  with l have 2: "dropWhile isSpace (rev s) = rev s"
    by (metis dropWhile_hd_id)
  show ?thesis by (simp add: TrimSpace_def 1 2)
qed

lemma trimmed_TrimSpace: "trimmed (TrimSpace s)"
proof -
  define t where "t = dropWhile isSpace s"
  define u where "u = rev (dropWhile isSpace (rev t))"
  have tu: "t = u @ rev (takeWhile isSpace (rev t))"
    unfolding u_def by (metis rev_append rev_rev_ident takeWhile_dropWhile_id)
  show ?thesis
  proof (cases "u = []")
    case True
    then show ?thesis by (simp add: trimmed_def TrimSpace_def u_def t_def)
  next
    case False
    then have "t \<noteq> []" using tu by auto
    then have "\<not> isSpace (hd t)" unfolding t_def by (simp add: hd_dropWhile)
    moreover have "hd t = hd u" using tu False by (metis hd_append2)
    moreover have "\<not> isSpace (last u)"
      using False unfolding u_def by (simp add: last_rev hd_dropWhile)
    ultimately show ?thesis
      by (simp add: trimmed_def TrimSpace_def u_def t_def)
  qed
qed

lemma trimmed_Join:
  "list_all (\<lambda>p. p \<noteq> [] \<and> trimmed p) ps \<Longrightarrow> trimmed (Join ps)"
proof (induction ps rule: Join.induct)
  case 1
  then show ?case by (simp add: trimmed_def)
next
  case (2 p)
  then show ?case by simp
next
  case (3 p q ps)
  then have "Join (q # ps) \<noteq> []" by (cases ps) auto
  with 3 show ?case by (auto simp: trimmed_def)
qed

lemma chunk_segments_Text:
  "list_all (\<lambda>p. p \<noteq> [] \<and> trimmed p) (map Text (chunk_segments w))"
  by (auto simp: chunk_segments_def list_all_iff normalise_record_def usable_record_def
      trimmed_TrimSpace)

lemma trimmed_chunk_text: "trimmed (chunk_text w)"
  by (simp add: chunk_text_def trimmed_TrimSpace trimmed_Join chunk_segments_Text)

lemma TrimSpace_chunk_text [simp]: "TrimSpace (chunk_text w) = chunk_text w"
  by (simp add: TrimSpace_trimmed trimmed_chunk_text)

section \<open>Writes to a job row\<close>

lemma COALESCE_simps [simp]:
  "COALESCE None col = col"
  "COALESCE (Some x) col = Some x"
  by (simp_all add: COALESCE_def)

lemma UpdateJobProgress_row:
  "processing_jobs s jobID = Some row \<Longrightarrow>
   UpdateJobProgress s jobID st pr tc cc res tid =
     s\<lparr>processing_jobs := (processing_jobs s)(jobID \<mapsto> set_progress row st pr tc cc res tid),
       journal := journal s @ [(jobID, set_progress row st pr tc cc res tid)]\<rparr>"
  by (simp add: UpdateJobProgress_def Let_def)




section \<open>The worker's loop over the chunks\<close>

lemma store_upd_triv:
  "processing_jobs s jobID = Some row \<Longrightarrow>
   s\<lparr>processing_jobs := (processing_jobs s)(jobID \<mapsto> row), journal := journal s @ []\<rparr> = s"
  by (simp add: map_upd_triv)

lemma process_chunks_store:
  assumes "processing_jobs s jobID = Some row"
  shows "\<exists>m rows row'. m \<le> length chs
     \<and> snd (process_chunks e jobID n i chs comb parts lang s)
         = s\<lparr>processing_jobs := (processing_jobs s)(jobID \<mapsto> row'),
             journal := journal s @ map (Pair jobID) rows\<rparr>
     \<and> row' = last (row # rows)
     \<and> (case fst (process_chunks e jobID n i chs comb parts lang s) of
           Inr acc \<Rightarrow> m = length chs
             \<and> rows = map (\<lambda>k. row\<lparr>status := ''processing'',
                                    progress := 15 + 65 * int k div max_go 1 n,
                                    current_chunk := Some (int k)\<rparr>) [Suc i ..< Suc (i + m)]
         | Inl (cur, msg) \<Rightarrow> cur = int (i + m) + 1 \<and> m < length chs
             \<and> rows = map (\<lambda>k. row\<lparr>status := ''processing'',
                                    progress := 15 + 65 * int k div max_go 1 n,
                                    current_chunk := Some (int k)\<rparr>) [Suc i ..< Suc (Suc (i + m))]
                 @ [row\<lparr>status := ''failed'', progress := 100, current_chunk := Some cur,
                       result := Some msg\<rparr>])"
  using assms
proof (induction chs arbitrary: i comb parts lang s row)
  case Nil
  show ?case
  proof (intro exI [of _ 0] exI [of _ "[]"] exI [of _ row] conjI)
    show "snd (process_chunks e jobID n i [] comb parts lang s)
        = s\<lparr>processing_jobs := (processing_jobs s)(jobID \<mapsto> row),
             journal := journal s @ map (Pair jobID) []\<rparr>"
      using store_upd_triv [OF Nil] by simp
  qed simp_all
next
  case (Cons ch chs)
  let ?ck = "\<lambda>r k. r\<lparr>status := ''processing'', progress := 15 + 65 * int k div max_go 1 n,
                       current_chunk := Some (int k)\<rparr>"
  define row1 where "row1 = ?ck row (Suc i)"
  define s1 where "s1 = UpdateJobProgress s jobID ''processing''
      (15 + 65 * (int i + 1) div max_go 1 n) None (Some (int i + 1)) None None"
  have s1: "s1 = s\<lparr>processing_jobs := (processing_jobs s)(jobID \<mapsto> row1),
                    journal := journal s @ [(jobID, row1)]\<rparr>"
    unfolding s1_def row1_def using Cons.prems
    by (simp add: UpdateJobProgress_row set_progress_def algebra_simps)
  then have r1: "processing_jobs s1 jobID = Some row1" by simp
  have ck1: "?ck row1 k = ?ck row k" for k
    by (simp add: row1_def)
  have mp: "Suc i < j \<Longrightarrow> map f [Suc i ..< j] = f (Suc i) # map f [Suc (Suc i) ..< j]"
    for f :: "nat \<Rightarrow> job_row" and j
    by (simp add: upt_conv_Cons del: upt_Suc)
  have ckF: "row1\<lparr>status := ''failed'', progress := 100, current_chunk := c, result := r\<rparr>
      = row\<lparr>status := ''failed'', progress := 100, current_chunk := c, result := r\<rparr>" for c r
    by (simp add: row1_def)
  show ?case
  proof (cases "transcribeChunk (whisper e ch)")
    case (Inl msg)
    define rowF where "rowF = row\<lparr>status := ''failed'', progress := 100,
        current_chunk := Some (int i + 1), result := Some msg\<rparr>"
    have step: "process_chunks e jobID n i (ch # chs) comb parts lang s =
        (Inl (int i + 1, msg),
         UpdateJobProgress s1 jobID ''failed'' 100 None (Some (int i + 1)) (Some msg) None)"
      using Inl by (simp add: Let_def s1_def)
    have fl: "UpdateJobProgress s1 jobID ''failed'' 100 None (Some (int i + 1)) (Some msg) None
        = s\<lparr>processing_jobs := (processing_jobs s)(jobID \<mapsto> rowF),
             journal := journal s @ map (Pair jobID) [row1, rowF]\<rparr>"
      by (simp add: UpdateJobProgress_row [OF r1] set_progress_def)
         (simp add: s1 row1_def rowF_def)
    show ?thesis
      unfolding step
    proof (intro exI [of _ 0] exI [of _ "[row1, rowF]"] exI [of _ rowF] conjI)
      show "snd (Inl (int i + 1, msg),
          UpdateJobProgress s1 jobID ''failed'' 100 None (Some (int i + 1)) (Some msg) None)
        = s\<lparr>processing_jobs := (processing_jobs s)(jobID \<mapsto> rowF),
             journal := journal s @ map (Pair jobID) [row1, rowF]\<rparr>"
        using fl by simp
    qed (simp_all add: row1_def rowF_def)
  next
    case (Inr ok)
    obtain segs tx chunkLang where ok: "ok = (segs, tx, chunkLang)" by (cases ok) auto
    define comb' where "comb' = comb @ map (shift_segment (Offset ch)) segs"
    define parts' where "parts' = (if TrimSpace tx \<noteq> [] then parts @ [TrimSpace tx] else parts)"
    define lang' where "lang' = (if lang = None \<and> chunkLang \<noteq> None
        \<and> TrimSpace (the chunkLang) \<noteq> [] then chunkLang else lang)"
    let ?pc = "process_chunks e jobID n (Suc i) chs comb' parts' lang' s1"
    have step: "process_chunks e jobID n i (ch # chs) comb parts lang s = ?pc"
      using Inr ok by (simp add: Let_def s1_def comb'_def parts'_def lang'_def)
    from Cons.IH [OF r1, of "Suc i" comb' parts' lang'] obtain m rows row' where
      m: "m \<le> length chs" and
      st: "snd ?pc = s1\<lparr>processing_jobs := (processing_jobs s1)(jobID \<mapsto> row'),
                        journal := journal s1 @ map (Pair jobID) rows\<rparr>" and
      la: "row' = last (row1 # rows)" and
      rs: "(case fst ?pc of
             Inr acc \<Rightarrow> m = length chs \<and> rows = map (?ck row1) [Suc (Suc i) ..< Suc (Suc i + m)]
           | Inl (cur, msg) \<Rightarrow> cur = int (Suc i + m) + 1 \<and> m < length chs
               \<and> rows = map (?ck row1) [Suc (Suc i) ..< Suc (Suc (Suc i + m))]
                   @ [row1\<lparr>status := ''failed'', progress := 100, current_chunk := Some cur,
                            result := Some msg\<rparr>])"
      by blast
    have st': "snd ?pc = s\<lparr>processing_jobs := (processing_jobs s)(jobID \<mapsto> row'),
                          journal := journal s @ map (Pair jobID) (row1 # rows)\<rparr>"
      unfolding st by (simp add: s1)
    have rs': "(case fst ?pc of
             Inr acc \<Rightarrow> Suc m = length (ch # chs)
                \<and> row1 # rows = map (?ck row) [Suc i ..< Suc (i + Suc m)]
           | Inl (cur, msg) \<Rightarrow> cur = int (i + Suc m) + 1 \<and> Suc m < length (ch # chs)
               \<and> row1 # rows = map (?ck row) [Suc i ..< Suc (Suc (i + Suc m))]
                   @ [row\<lparr>status := ''failed'', progress := 100, current_chunk := Some cur,
                            result := Some msg\<rparr>])"
    proof (cases "fst ?pc")
      case (Inl a)
      obtain cur msg where a: "a = (cur, msg)" by (cases a) auto
      from rs Inl a show ?thesis
        by (simp add: ck1 ckF mp del: upt_Suc) (simp add: row1_def)
    next
      case (Inr b)
      with rs show ?thesis
        by (simp add: ck1 ckF mp del: upt_Suc) (simp add: row1_def)
    qed
    show ?thesis
      unfolding step
    proof (intro exI [of _ "Suc m"] exI [of _ "row1 # rows"] exI [of _ row'] conjI)
      show "snd ?pc = s\<lparr>processing_jobs := (processing_jobs s)(jobID \<mapsto> row'),
                          journal := journal s @ map (Pair jobID) (row1 # rows)\<rparr>"
        by (rule st')
      show "row' = last (row # row1 # rows)" using la by simp
      show "Suc m \<le> length (ch # chs)" using m by simp
      show "(case fst ?pc of
             Inr acc \<Rightarrow> Suc m = length (ch # chs)
                \<and> row1 # rows = map (?ck row) [Suc i ..< Suc (i + Suc m)]
           | Inl (cur, msg) \<Rightarrow> cur = int (i + Suc m) + 1 \<and> Suc m < length (ch # chs)
               \<and> row1 # rows = map (?ck row) [Suc i ..< Suc (Suc (i + Suc m))]
                   @ [row\<lparr>status := ''failed'', progress := 100, current_chunk := Some cur,
                            result := Some msg\<rparr>])"
        by (rule rs')
    qed
  qed
qed

section \<open>Persisting a transcript\<close>

lemma insert_segments_Inr:
  "insert_segments db tid k segs rows = Inr rows' \<Longrightarrow>
   rows' = rows @ map (segment_row_of tid) (filter (\<lambda>g. stringsTrim (in_Text g) \<noteq> []) segs)"
proof (induction segs arbitrary: k rows)
  case Nil
  then show ?case by simp
next
  case (Cons g segs)
  show ?case
  proof (cases "stringsTrim (in_Text g) = []")
    case True
    with Cons.prems have "insert_segments db tid k segs rows = Inr rows'" by simp
    from Cons.IH [OF this] True show ?thesis by simp
  next
    case False
    with Cons.prems have
      "insert_segments db tid (Suc k) segs (rows @ [segment_row_of tid g]) = Inr rows'"
      by (simp add: segment_row_of_def split: option.splits)
    from Cons.IH [OF this] False show ?thesis by simp
  qed
qed

lemma CreateTranscriptWithSegments_cases:
  "(\<exists>err. CreateTranscriptWithSegments db s cid fn tx dur lang model url segs = (Inl err, s))
   \<or> CreateTranscriptWithSegments db s cid fn tx dur lang model url segs =
       (Inr (transcripts_seq s + 1),
        s\<lparr>transcripts := transcripts s @
              [\<lparr>tr_id = transcripts_seq s + 1, tr_conversation_id = cid, file_name = fn,
                transcript_text = tx, duration = dur, language = lang,
                transcription_model = model, audio_file_url = url\<rparr>],
          transcripts_seq := transcripts_seq s + 1,
          transcript_segments := transcript_segments s @
              map (segment_row_of (transcripts_seq s + 1))
                  (filter (\<lambda>g. stringsTrim (in_Text g) \<noteq> []) segs)\<rparr>)"
proof (cases "segs = []")
  case True
  then show ?thesis
    by (auto simp: CreateTranscriptWithSegments_def Let_def split: option.splits)
next
  case False
  show ?thesis
  proof (cases "insert_segments db (transcripts_seq s + 1) 0 segs (transcript_segments s)")
    case (Inl a)
    with False show ?thesis
      by (auto simp: CreateTranscriptWithSegments_def Let_def split: option.splits)
  next
    case (Inr rows')
    from insert_segments_Inr [OF Inr] Inr False show ?thesis
      by (auto simp: CreateTranscriptWithSegments_def Let_def split: option.splits)
  qed
qed

section \<open>The runs of the worker\<close>

lemma last_checkpoint_update:
  "(last (r # map (\<lambda>k. r\<lparr>status := a k, progress := b k, current_chunk := c k\<rparr>) ks))
      \<lparr>status := x, progress := y, current_chunk := z\<rparr>
   = r\<lparr>status := x, progress := y, current_chunk := z\<rparr>"
  by (cases "ks = []") (simp_all add: last_map)

lemma process_cases:
  assumes row: "processing_jobs s (JobID j) = Some row"
  obtains
    (early) st msg where
      "st = Configure \<or> st = TempDir \<or> st = Chunking"
      "process p e j s =
         (Failed st msg,
          s\<lparr>processing_jobs := (processing_jobs s)(JobID j \<mapsto>
                row\<lparr>status := ''failed'', progress := 100, result := Some msg\<rparr>),
            journal := journal s @ map (Pair (JobID j))
               [row\<lparr>status := ''processing'', progress := 10\<rparr>,
                row\<lparr>status := ''failed'', progress := 100, result := Some msg\<rparr>]\<rparr>)"
  | (chunk) r chunks m msg where
      "p = Some r" "chunkAudio (ChunkSeconds r) (ffmpeg e) = Inr chunks" "m < length chunks"
      "process p e j s =
         (Failed (Transcription (int m + 1)) msg,
          s\<lparr>processing_jobs := (processing_jobs s)(JobID j \<mapsto>
                row\<lparr>status := ''failed'', progress := 100,
                    total_chunks := Some (int (length chunks)),
                    current_chunk := Some (int m + 1), result := Some msg\<rparr>),
            journal := journal s @ map (Pair (JobID j))
               ([row\<lparr>status := ''processing'', progress := 10\<rparr>,
                 row\<lparr>status := ''processing'', progress := 15,
                     total_chunks := Some (int (length chunks)), current_chunk := Some 0\<rparr>]
                @ map (\<lambda>k. row\<lparr>status := ''processing'',
                         progress := 15 + 65 * int k div max_go 1 (int (length chunks)),
                         total_chunks := Some (int (length chunks)),
                         current_chunk := Some (int k)\<rparr>) [1 ..< Suc (Suc m)]
                @ [row\<lparr>status := ''failed'', progress := 100,
                      total_chunks := Some (int (length chunks)),
                      current_chunk := Some (int m + 1), result := Some msg\<rparr>])\<rparr>)"
  | (finish) r chunks comb parts lang s4 where
      "p = Some r" "chunkAudio (ChunkSeconds r) (ffmpeg e) = Inr chunks"
      "fst (process_chunks e (JobID j) (int (length chunks)) 0 chunks [] [] None
              (UpdateJobProgress
                 (UpdateJobProgress s (JobID j) ''processing'' 10 None None None None)
                 (JobID j) ''processing'' 15 (Some (int (length chunks))) (Some 0) None None))
         = Inr (comb, parts, lang)"
      "s4 = s\<lparr>processing_jobs := (processing_jobs s)(JobID j \<mapsto>
                row\<lparr>status := ''processing'', progress := 85,
                    total_chunks := Some (int (length chunks)),
                    current_chunk := Some (int (length chunks))\<rparr>),
            journal := journal s @ map (Pair (JobID j))
               ([row\<lparr>status := ''processing'', progress := 10\<rparr>,
                 row\<lparr>status := ''processing'', progress := 15,
                     total_chunks := Some (int (length chunks)), current_chunk := Some 0\<rparr>]
                @ map (\<lambda>k. row\<lparr>status := ''processing'',
                         progress := 15 + 65 * int k div max_go 1 (int (length chunks)),
                         total_chunks := Some (int (length chunks)),
                         current_chunk := Some (int k)\<rparr>) [1 ..< Suc (length chunks)]
                @ [row\<lparr>status := ''processing'', progress := 85,
                      total_chunks := Some (int (length chunks)),
                      current_chunk := Some (int (length chunks))\<rparr>])\<rparr>"
      "process p e j s =
         (case CreateTranscriptWithSegments (sqlite e) s4 (ConversationID j) (FileName j)
                 (Join parts) None lang (Some ''whisper.cpp'')
                 (''/api/audio/'' @ Itoa (ConversationID j))
                 (map (\<lambda>sg. \<lparr>StartTime = Start sg, EndTime = End sg, in_Text = Text sg\<rparr>)
                      (filter (\<lambda>sg. TrimSpace (Text sg) \<noteq> []) comb)) of
            (Inl msg, s5) \<Rightarrow>
              (Failed Persistence msg,
               UpdateJobProgress s5 (JobID j) ''failed'' 100 None None (Some msg) None)
          | (Inr transcriptID, s5) \<Rightarrow>
              (Completed transcriptID,
               UpdateJobProgress s5 (JobID j) ''completed'' 100 None
                 (Some (int (length chunks))) (Some ''success'') (Some transcriptID)))"
proof -
  let ?jid = "JobID j"
  define r10 where "r10 = row\<lparr>status := ''processing'', progress := 10\<rparr>"
  define s1 where "s1 = UpdateJobProgress s ?jid ''processing'' 10 None None None None"
  have s1: "s1 = s\<lparr>processing_jobs := (processing_jobs s)(?jid \<mapsto> r10),
                    journal := journal s @ [(?jid, r10)]\<rparr>"
    unfolding s1_def r10_def using row by (simp add: UpdateJobProgress_row set_progress_def)
  then have row1: "processing_jobs s1 ?jid = Some r10" by simp
  have fail1: "UpdateJobProgress s1 ?jid ''failed'' 100 None None (Some msg) None
      = s\<lparr>processing_jobs := (processing_jobs s)(?jid \<mapsto>
              row\<lparr>status := ''failed'', progress := 100, result := Some msg\<rparr>),
           journal := journal s @ map (Pair ?jid)
             [row\<lparr>status := ''processing'', progress := 10\<rparr>,
              row\<lparr>status := ''failed'', progress := 100, result := Some msg\<rparr>]\<rparr>" for msg
    by (simp add: UpdateJobProgress_row [OF row1] set_progress_def) (simp add: s1 r10_def)
  show thesis
  proof (cases p)
    case None
    then have "process p e j s = (Failed Configure ''pipeline not configured'',
        UpdateJobProgress s1 ?jid ''failed'' 100 None None (Some ''pipeline not configured'') None)"
      by (simp add: process_def Let_def s1_def)
    then show thesis using early [of Configure "''pipeline not configured''"] fail1 by simp
  next
    case (Some r)
    show thesis
    proof (cases "MkdirTemp e")
      case (Inl msg)
      with Some have "process p e j s = (Failed TempDir msg,
          UpdateJobProgress s1 ?jid ''failed'' 100 None None (Some msg) None)"
        by (simp add: process_def Let_def s1_def)
      then show thesis using early [of TempDir msg] fail1 by simp
    next
      case (Inr workDir)
      show thesis
      proof (cases "chunkAudio (ChunkSeconds r) (ffmpeg e)")
        case (Inl msg)
        with Some Inr have "process p e j s = (Failed Chunking msg,
            UpdateJobProgress s1 ?jid ''failed'' 100 None None (Some msg) None)"
          by (simp add: process_def Let_def s1_def)
        then show thesis using early [of Chunking msg] fail1 by simp
      next
        case chunks: (Inr chunks)
        let ?n = "int (length chunks)"
        define r15 where "r15 = row\<lparr>status := ''processing'', progress := 15,
            total_chunks := Some ?n, current_chunk := Some 0\<rparr>"
        define s2 where "s2 = UpdateJobProgress s1 ?jid ''processing'' 15 (Some ?n) (Some 0)
            None None"
        have s2: "s2 = s\<lparr>processing_jobs := (processing_jobs s)(?jid \<mapsto> r15),
                          journal := journal s @ [(?jid, r10), (?jid, r15)]\<rparr>"
          unfolding s2_def by (simp add: UpdateJobProgress_row [OF row1] set_progress_def)
             (simp add: s1 r10_def r15_def)
        then have row2: "processing_jobs s2 ?jid = Some r15" by simp
        let ?pc = "process_chunks e ?jid ?n 0 chunks [] [] None s2"
        have unf: "process p e j s =
            (case ?pc of
               (Inl (current, msg), s3) \<Rightarrow> (Failed (Transcription current) msg, s3)
             | (Inr (combined, textParts, lang), s3) \<Rightarrow>
                 (case CreateTranscriptWithSegments (sqlite e)
                         (UpdateJobProgress s3 ?jid ''processing'' 85 None (Some ?n) None None)
                         (ConversationID j) (FileName j)
                         (Join textParts) None lang (Some ''whisper.cpp'')
                         (''/api/audio/'' @ Itoa (ConversationID j))
                         (map (\<lambda>sg. \<lparr>StartTime = Start sg, EndTime = End sg, in_Text = Text sg\<rparr>)
                              (filter (\<lambda>sg. TrimSpace (Text sg) \<noteq> []) combined)) of
                    (Inl msg, s5) \<Rightarrow>
                      (Failed Persistence msg,
                       UpdateJobProgress s5 ?jid ''failed'' 100 None None (Some msg) None)
                  | (Inr transcriptID, s5) \<Rightarrow>
                      (Completed transcriptID,
                       UpdateJobProgress s5 ?jid ''completed'' 100 None (Some ?n)
                         (Some ''success'') (Some transcriptID))))"
          unfolding process_def Let_def s1_def s2_def using Some Inr chunks by simp
        from process_chunks_store [OF row2, of chunks e ?n 0 "[]" "[]" None]
        obtain m rows row' where
          m: "m \<le> length chunks" and
          st: "snd ?pc = s2\<lparr>processing_jobs := (processing_jobs s2)(?jid \<mapsto> row'),
                           journal := journal s2 @ map (Pair ?jid) rows\<rparr>" and
          la: "row' = last (r15 # rows)" and
          rs: "(case fst ?pc of
                  Inr acc \<Rightarrow> m = length chunks
                    \<and> rows = map (\<lambda>k. r15\<lparr>status := ''processing'',
                                    progress := 15 + 65 * int k div max_go 1 ?n,
                                    current_chunk := Some (int k)\<rparr>) [Suc 0 ..< Suc (0 + m)]
                | Inl (cur, msg) \<Rightarrow> cur = int (0 + m) + 1 \<and> m < length chunks
                    \<and> rows = map (\<lambda>k. r15\<lparr>status := ''processing'',
                                    progress := 15 + 65 * int k div max_go 1 ?n,
                                    current_chunk := Some (int k)\<rparr>) [Suc 0 ..< Suc (Suc (0 + m))]
                        @ [r15\<lparr>status := ''failed'', progress := 100, current_chunk := Some cur,
                              result := Some msg\<rparr>])"
          by blast
        have st': "snd ?pc = s\<lparr>processing_jobs := (processing_jobs s)(?jid \<mapsto> row'),
              journal := journal s @ map (Pair ?jid) ([r10, r15] @ rows)\<rparr>"
          unfolding st by (simp add: s2)
        have ck: "r15\<lparr>status := ''processing'', progress := pr, current_chunk := c\<rparr>
            = row\<lparr>status := ''processing'', progress := pr, total_chunks := Some ?n,
                  current_chunk := c\<rparr>" for pr c
          by (simp add: r15_def)
        show thesis
        proof (cases "fst ?pc")
          case (Inl a)
          obtain cur msg where a: "a = (cur, msg)" by (cases a) auto
          from rs Inl a have cur: "cur = int m + 1" and mlt: "m < length chunks"
            and rows: "rows = map (\<lambda>k. r15\<lparr>status := ''processing'',
                                    progress := 15 + 65 * int k div max_go 1 ?n,
                                    current_chunk := Some (int k)\<rparr>) [Suc 0 ..< Suc (Suc m)]
                        @ [r15\<lparr>status := ''failed'', progress := 100, current_chunk := Some cur,
                              result := Some msg\<rparr>]"
            by simp_all
          have rowF: "row' = row\<lparr>status := ''failed'', progress := 100,
                    total_chunks := Some ?n, current_chunk := Some (int m + 1),
                    result := Some msg\<rparr>"
            unfolding la rows by (simp add: r15_def cur)
          have pc: "?pc = (Inl (cur, msg), snd ?pc)"
            using Inl a by (metis prod.collapse)
          have "process p e j s = (Failed (Transcription (int m + 1)) msg, snd ?pc)"
            unfolding unf by (subst pc) (simp add: cur)
          then show thesis
            using chunk [of r chunks m msg] Some chunks mlt
            unfolding st' rows rowF
            by (simp add: ck r10_def r15_def cur del: upt_Suc)
        next
          case (Inr b)
          obtain comb parts lang where b: "b = (comb, parts, lang)" by (cases b) auto
          from rs Inr b have mlen: "m = length chunks"
            and rows: "rows = map (\<lambda>k. r15\<lparr>status := ''processing'',
                                    progress := 15 + 65 * int k div max_go 1 ?n,
                                    current_chunk := Some (int k)\<rparr>) [Suc 0 ..< Suc m]"
            by simp_all
          have pc: "?pc = (Inr (comb, parts, lang), snd ?pc)"
            using Inr b by (metis prod.collapse)
          have row3: "processing_jobs (snd ?pc) ?jid = Some row'"
            unfolding st' by simp
          have r85: "row'\<lparr>status := ''processing'', progress := 85,
                         current_chunk := Some ?n\<rparr>
              = row\<lparr>status := ''processing'', progress := 85, total_chunks := Some ?n,
                    current_chunk := Some ?n\<rparr>"
            unfolding la rows by (simp only: last_checkpoint_update) (simp add: r15_def)
          have sp: "set_progress row' ''processing'' 85 None (Some ?n) None None
              = row'\<lparr>status := ''processing'', progress := 85, current_chunk := Some ?n\<rparr>"
            by (simp add: set_progress_def)
          define s4 where "s4 = UpdateJobProgress (snd ?pc) ?jid ''processing'' 85 None (Some ?n)
              None None"
          have s4: "s4 = s\<lparr>processing_jobs := (processing_jobs s)(?jid \<mapsto>
                row\<lparr>status := ''processing'', progress := 85, total_chunks := Some ?n,
                    current_chunk := Some ?n\<rparr>),
              journal := journal s @ map (Pair ?jid)
               ([row\<lparr>status := ''processing'', progress := 10\<rparr>,
                 row\<lparr>status := ''processing'', progress := 15,
                     total_chunks := Some ?n, current_chunk := Some 0\<rparr>]
                @ map (\<lambda>k. row\<lparr>status := ''processing'',
                         progress := 15 + 65 * int k div max_go 1 ?n,
                         total_chunks := Some ?n,
                         current_chunk := Some (int k)\<rparr>) [1 ..< Suc (length chunks)]
                @ [row\<lparr>status := ''processing'', progress := 85,
                      total_chunks := Some ?n, current_chunk := Some ?n\<rparr>])\<rparr>"
            unfolding s4_def UpdateJobProgress_row [OF row3] sp r85
            by (simp add: st' rows ck mlen r10_def r15_def del: upt_Suc)
          have fstpc: "fst (process_chunks e ?jid ?n 0 chunks [] [] None
              (UpdateJobProgress
                 (UpdateJobProgress s ?jid ''processing'' 10 None None None None)
                 ?jid ''processing'' 15 (Some ?n) (Some 0) None None)) = Inr (comb, parts, lang)"
            using Inr b by (simp add: s1_def s2_def)
          have "process p e j s =
             (case CreateTranscriptWithSegments (sqlite e) s4 (ConversationID j) (FileName j)
                 (Join parts) None lang (Some ''whisper.cpp'')
                 (''/api/audio/'' @ Itoa (ConversationID j))
                 (map (\<lambda>sg. \<lparr>StartTime = Start sg, EndTime = End sg, in_Text = Text sg\<rparr>)
                      (filter (\<lambda>sg. TrimSpace (Text sg) \<noteq> []) comb)) of
                (Inl msg, s5) \<Rightarrow>
                  (Failed Persistence msg,
                   UpdateJobProgress s5 ?jid ''failed'' 100 None None (Some msg) None)
              | (Inr transcriptID, s5) \<Rightarrow>
                  (Completed transcriptID,
                   UpdateJobProgress s5 ?jid ''completed'' 100 None
                     (Some ?n) (Some ''success'') (Some transcriptID)))"
            unfolding unf by (subst pc) (simp add: s4_def)
          then show thesis
            using finish [of r chunks comb parts lang s4] Some chunks fstpc s4 by blast
        qed
      qed
    qed
  qed
qed

lemma process_outcome:
  assumes row: "processing_jobs s (JobID j) = Some row"
  obtains
    (early) st msg where
      "st = Configure \<or> st = TempDir \<or> st = Chunking"
      "process p e j s =
         (Failed st msg,
          s\<lparr>processing_jobs := (processing_jobs s)(JobID j \<mapsto>
                row\<lparr>status := ''failed'', progress := 100, result := Some msg\<rparr>),
            journal := journal s @ map (Pair (JobID j))
               [row\<lparr>status := ''processing'', progress := 10\<rparr>,
                row\<lparr>status := ''failed'', progress := 100, result := Some msg\<rparr>]\<rparr>)"
  | (chunk) r chunks m msg where
      "p = Some r" "chunkAudio (ChunkSeconds r) (ffmpeg e) = Inr chunks" "m < length chunks"
      "process p e j s =
         (Failed (Transcription (int m + 1)) msg,
          s\<lparr>processing_jobs := (processing_jobs s)(JobID j \<mapsto>
                row\<lparr>status := ''failed'', progress := 100,
                    total_chunks := Some (int (length chunks)),
                    current_chunk := Some (int m + 1), result := Some msg\<rparr>),
            journal := journal s @ map (Pair (JobID j))
               ([row\<lparr>status := ''processing'', progress := 10\<rparr>,
                 row\<lparr>status := ''processing'', progress := 15,
                     total_chunks := Some (int (length chunks)), current_chunk := Some 0\<rparr>]
                @ map (\<lambda>k. row\<lparr>status := ''processing'',
                         progress := 15 + 65 * int k div max_go 1 (int (length chunks)),
                         total_chunks := Some (int (length chunks)),
                         current_chunk := Some (int k)\<rparr>) [1 ..< Suc (Suc m)]
                @ [row\<lparr>status := ''failed'', progress := 100,
                      total_chunks := Some (int (length chunks)),
                      current_chunk := Some (int m + 1), result := Some msg\<rparr>])\<rparr>)"
  | (persist) r chunks msg where
      "p = Some r" "chunkAudio (ChunkSeconds r) (ffmpeg e) = Inr chunks"
      "process p e j s =
         (Failed Persistence msg,
          s\<lparr>processing_jobs := (processing_jobs s)(JobID j \<mapsto>
                row\<lparr>status := ''failed'', progress := 100,
                    total_chunks := Some (int (length chunks)),
                    current_chunk := Some (int (length chunks)), result := Some msg\<rparr>),
            journal := journal s @ map (Pair (JobID j))
               ([row\<lparr>status := ''processing'', progress := 10\<rparr>,
                 row\<lparr>status := ''processing'', progress := 15,
                     total_chunks := Some (int (length chunks)), current_chunk := Some 0\<rparr>]
                @ map (\<lambda>k. row\<lparr>status := ''processing'',
                         progress := 15 + 65 * int k div max_go 1 (int (length chunks)),
                         total_chunks := Some (int (length chunks)),
                         current_chunk := Some (int k)\<rparr>) [1 ..< Suc (length chunks)]
                @ [row\<lparr>status := ''processing'', progress := 85,
                      total_chunks := Some (int (length chunks)),
                      current_chunk := Some (int (length chunks))\<rparr>,
                   row\<lparr>status := ''failed'', progress := 100,
                      total_chunks := Some (int (length chunks)),
                      current_chunk := Some (int (length chunks)), result := Some msg\<rparr>])\<rparr>)"
  | (success) r chunks comb parts lang where
      "p = Some r" "chunkAudio (ChunkSeconds r) (ffmpeg e) = Inr chunks"
      "fst (process_chunks e (JobID j) (int (length chunks)) 0 chunks [] [] None
              (UpdateJobProgress
                 (UpdateJobProgress s (JobID j) ''processing'' 10 None None None None)
                 (JobID j) ''processing'' 15 (Some (int (length chunks))) (Some 0) None None))
         = Inr (comb, parts, lang)"
      "process p e j s =
         (Completed (transcripts_seq s + 1),
          s\<lparr>processing_jobs := (processing_jobs s)(JobID j \<mapsto>
                row\<lparr>status := ''completed'', progress := 100,
                    total_chunks := Some (int (length chunks)),
                    current_chunk := Some (int (length chunks)), result := Some ''success'',
                    transcript_id := Some (transcripts_seq s + 1)\<rparr>),
            journal := journal s @ map (Pair (JobID j))
               ([row\<lparr>status := ''processing'', progress := 10\<rparr>,
                 row\<lparr>status := ''processing'', progress := 15,
                     total_chunks := Some (int (length chunks)), current_chunk := Some 0\<rparr>]
                @ map (\<lambda>k. row\<lparr>status := ''processing'',
                         progress := 15 + 65 * int k div max_go 1 (int (length chunks)),
                         total_chunks := Some (int (length chunks)),
                         current_chunk := Some (int k)\<rparr>) [1 ..< Suc (length chunks)]
                @ [row\<lparr>status := ''processing'', progress := 85,
                      total_chunks := Some (int (length chunks)),
                      current_chunk := Some (int (length chunks))\<rparr>,
                   row\<lparr>status := ''completed'', progress := 100,
                      total_chunks := Some (int (length chunks)),
                      current_chunk := Some (int (length chunks)), result := Some ''success'',
                      transcript_id := Some (transcripts_seq s + 1)\<rparr>]),
            transcripts := transcripts s @
              [\<lparr>tr_id = transcripts_seq s + 1, tr_conversation_id = ConversationID j,
                file_name = FileName j, transcript_text = Join parts, duration = None,
                language = lang, transcription_model = Some ''whisper.cpp'',
                audio_file_url = ''/api/audio/'' @ Itoa (ConversationID j)\<rparr>],
            transcripts_seq := transcripts_seq s + 1,
            transcript_segments := transcript_segments s @
              map (segment_row_of (transcripts_seq s + 1))
                (filter (\<lambda>g. stringsTrim (in_Text g) \<noteq> [])
                   (map (\<lambda>sg. \<lparr>StartTime = Start sg, EndTime = End sg, in_Text = Text sg\<rparr>)
                      (filter (\<lambda>sg. TrimSpace (Text sg) \<noteq> []) comb)))\<rparr>)"
  using row
proof (cases rule: process_cases [where p = p and e = e])
  case (early st msg)
  then show ?thesis using that(1) by blast
next
  case (chunk r chunks m msg)
  then show ?thesis using that(2) by blast
next
  case (finish r chunks comb parts lang s4)
  let ?n = "int (length chunks)"
  let ?segs = "map (\<lambda>sg. \<lparr>StartTime = Start sg, EndTime = End sg, in_Text = Text sg\<rparr>)
                      (filter (\<lambda>sg. TrimSpace (Text sg) \<noteq> []) comb)"
  let ?ct = "CreateTranscriptWithSegments (sqlite e) s4 (ConversationID j) (FileName j)
                 (Join parts) None lang (Some ''whisper.cpp'')
                 (''/api/audio/'' @ Itoa (ConversationID j)) ?segs"
  define r85 where "r85 = row\<lparr>status := ''processing'', progress := 85,
                    total_chunks := Some ?n, current_chunk := Some ?n\<rparr>"
  have row4: "processing_jobs s4 (JobID j) = Some r85"
    using finish(4) by (simp add: r85_def)
  have seq4: "transcripts_seq s4 = transcripts_seq s" "transcripts s4 = transcripts s"
    "transcript_segments s4 = transcript_segments s"
    using finish(4) by simp_all
  from CreateTranscriptWithSegments_cases [of "sqlite e" s4 "ConversationID j" "FileName j"
      "Join parts" None lang "Some ''whisper.cpp''" "''/api/audio/'' @ Itoa (ConversationID j)" ?segs]
  consider (bad) err where "?ct = (Inl err, s4)"
    | (good) "?ct = (Inr (transcripts_seq s4 + 1),
        s4\<lparr>transcripts := transcripts s4 @
              [\<lparr>tr_id = transcripts_seq s4 + 1, tr_conversation_id = ConversationID j,
                file_name = FileName j, transcript_text = Join parts, duration = None,
                language = lang, transcription_model = Some ''whisper.cpp'',
                audio_file_url = ''/api/audio/'' @ Itoa (ConversationID j)\<rparr>],
          transcripts_seq := transcripts_seq s4 + 1,
          transcript_segments := transcript_segments s4 @
              map (segment_row_of (transcripts_seq s4 + 1))
                  (filter (\<lambda>g. stringsTrim (in_Text g) \<noteq> []) ?segs)\<rparr>)"
    by blast
  then show ?thesis
  proof cases
    case bad
    have "process p e j s = (Failed Persistence err,
        UpdateJobProgress s4 (JobID j) ''failed'' 100 None None (Some err) None)"
      unfolding finish(5) bad by simp
    also have "UpdateJobProgress s4 (JobID j) ''failed'' 100 None None (Some err) None
        = s4\<lparr>processing_jobs := (processing_jobs s4)(JobID j \<mapsto>
                row\<lparr>status := ''failed'', progress := 100, total_chunks := Some ?n,
                    current_chunk := Some ?n, result := Some err\<rparr>),
              journal := journal s4 @ [(JobID j,
                row\<lparr>status := ''failed'', progress := 100, total_chunks := Some ?n,
                    current_chunk := Some ?n, result := Some err\<rparr>)]\<rparr>"
      by (simp add: UpdateJobProgress_row [OF row4] set_progress_def)
         (cases row, simp add: r85_def)
    finally show ?thesis
      using that(3) [of r chunks err] finish(1,2,4)
      by (simp del: upt_Suc)
  next
    case good
    define s5 where "s5 = s4\<lparr>transcripts := transcripts s4 @
              [\<lparr>tr_id = transcripts_seq s4 + 1, tr_conversation_id = ConversationID j,
                file_name = FileName j, transcript_text = Join parts, duration = None,
                language = lang, transcription_model = Some ''whisper.cpp'',
                audio_file_url = ''/api/audio/'' @ Itoa (ConversationID j)\<rparr>],
          transcripts_seq := transcripts_seq s4 + 1,
          transcript_segments := transcript_segments s4 @
              map (segment_row_of (transcripts_seq s4 + 1))
                  (filter (\<lambda>g. stringsTrim (in_Text g) \<noteq> []) ?segs)\<rparr>"
    have row5: "processing_jobs s5 (JobID j) = Some r85"
      unfolding s5_def using row4 by simp
    have "process p e j s = (Completed (transcripts_seq s4 + 1),
        UpdateJobProgress s5 (JobID j) ''completed'' 100 None (Some ?n) (Some ''success'')
          (Some (transcripts_seq s4 + 1)))"
      unfolding finish(5) good s5_def by simp
    also have "UpdateJobProgress s5 (JobID j) ''completed'' 100 None (Some ?n) (Some ''success'')
          (Some (transcripts_seq s4 + 1))
        = s5\<lparr>processing_jobs := (processing_jobs s5)(JobID j \<mapsto>
                row\<lparr>status := ''completed'', progress := 100, total_chunks := Some ?n,
                    current_chunk := Some ?n, result := Some ''success'',
                    transcript_id := Some (transcripts_seq s4 + 1)\<rparr>),
              journal := journal s5 @ [(JobID j,
                row\<lparr>status := ''completed'', progress := 100, total_chunks := Some ?n,
                    current_chunk := Some ?n, result := Some ''success'',
                    transcript_id := Some (transcripts_seq s4 + 1)\<rparr>)]\<rparr>"
      by (simp add: UpdateJobProgress_row [OF row5] set_progress_def)
         (cases row, simp add: r85_def)
    finally show ?thesis
      using that(4) [of r chunks comb parts lang] finish(1,2,3,4)
      by (simp add: s5_def del: upt_Suc)
  qed
qed

lemma process_after_chunking:
  assumes "p = Some r" "MkdirTemp e = Inr d" "chunkAudio (ChunkSeconds r) (ffmpeg e) = Inr chunks"
  shows "process p e j s =
     (case process_chunks e (JobID j) (int (length chunks)) 0 chunks [] [] None
              (UpdateJobProgress
                 (UpdateJobProgress s (JobID j) ''processing'' 10 None None None None)
                 (JobID j) ''processing'' 15 (Some (int (length chunks))) (Some 0) None None) of
        (Inl (current, msg), s3) \<Rightarrow> (Failed (Transcription current) msg, s3)
      | (Inr (combined, textParts, lang), s3) \<Rightarrow>
          (case CreateTranscriptWithSegments (sqlite e)
                  (UpdateJobProgress s3 (JobID j) ''processing'' 85 None
                     (Some (int (length chunks))) None None)
                  (ConversationID j) (FileName j)
                  (Join textParts) None lang (Some ''whisper.cpp'')
                  (''/api/audio/'' @ Itoa (ConversationID j))
                  (map (\<lambda>sg. \<lparr>StartTime = Start sg, EndTime = End sg, in_Text = Text sg\<rparr>)
                       (filter (\<lambda>sg. TrimSpace (Text sg) \<noteq> []) combined)) of
             (Inl msg, s5) \<Rightarrow>
               (Failed Persistence msg,
                UpdateJobProgress s5 (JobID j) ''failed'' 100 None None (Some msg) None)
           | (Inr transcriptID, s5) \<Rightarrow>
               (Completed transcriptID,
                UpdateJobProgress s5 (JobID j) ''completed'' 100 None
                  (Some (int (length chunks))) (Some ''success'') (Some transcriptID))))"
  unfolding process_def Let_def using assms by simp

lemma process_exit_of_chunks:
  assumes "p = Some r" "MkdirTemp e = Inr d" "chunkAudio (ChunkSeconds r) (ffmpeg e) = Inr chunks"
    and "fst (process_chunks e (JobID j) (int (length chunks)) 0 chunks [] [] None
              (UpdateJobProgress
                 (UpdateJobProgress s (JobID j) ''processing'' 10 None None None None)
                 (JobID j) ''processing'' 15 (Some (int (length chunks))) (Some 0) None None))
         = Inl (cur, msg)"
  shows "fst (process p e j s) = Failed (Transcription cur) msg"
proof -
  let ?pc = "process_chunks e (JobID j) (int (length chunks)) 0 chunks [] [] None
              (UpdateJobProgress
                 (UpdateJobProgress s (JobID j) ''processing'' 10 None None None None)
                 (JobID j) ''processing'' 15 (Some (int (length chunks))) (Some 0) None None)"
  have pc: "?pc = (Inl (cur, msg), snd ?pc)"
    using assms(4) by (metis prod.collapse)
  show ?thesis
    unfolding process_after_chunking [OF assms(1-3)] by (subst pc) simp
qed

lemma process_chunks_first_failure:
  "k < length chs \<Longrightarrow> \<forall>i<k. \<exists>ok. transcribeChunk (whisper e (chs ! i)) = Inr ok \<Longrightarrow>
   transcribeChunk (whisper e (chs ! k)) = Inl msg \<Longrightarrow>
   fst (process_chunks e jobID n i chs comb parts lang s) = Inl (int (i + k) + 1, msg)"
proof (induction chs arbitrary: k i comb parts lang s)
  case Nil
  then show ?case by simp
next
  case (Cons ch chs)
  show ?case
  proof (cases k)
    case 0
    with Cons.prems show ?thesis by (simp add: Let_def)
  next
    case (Suc k')
    from Cons.prems(2) Suc obtain ok where ok: "transcribeChunk (whisper e ch) = Inr ok"
      by fastforce
    obtain segs tx chunkLang where ok3: "ok = (segs, tx, chunkLang)" by (cases ok) auto
    have 1: "k' < length chs" using Cons.prems(1) Suc by simp
    have 2: "\<forall>i<k'. \<exists>ok. transcribeChunk (whisper e (chs ! i)) = Inr ok"
      using Cons.prems(2) Suc by fastforce
    have 3: "transcribeChunk (whisper e (chs ! k')) = Inl msg"
      using Cons.prems(3) Suc by simp
    show ?thesis
      using Cons.IH [OF 1 2 3, of "Suc i"] ok ok3 Suc by (simp add: Let_def)
  qed
qed



section \<open>The concrete inputs evaluated\<close>

lemma demo_job_row: "processing_jobs demo_store (JobID demo_job) = Some pending_row"
  by (simp add: demo_store_def CreateJob_def empty_store_def pending_row_def Let_def demo_job_def)

lemma three_chunks:
  "chunkAudio (ChunkSeconds demo_runner) (ChunkFiles three_files) = Inr
     [\<lparr>Path = ''/tmp/listen-job-1/chunk-000.wav'', Offset = 0, Index = 1\<rparr>,
      \<lparr>Path = ''/tmp/listen-job-1/chunk-001.wav'', Offset = 15, Index = 2\<rparr>,
      \<lparr>Path = ''/tmp/listen-job-1/chunk-002.wav'', Offset = 30, Index = 3\<rparr>]"
  by code_simp

lemma three_chunks_exit:
  "fst (process (Some demo_runner) env_three_chunks demo_job demo_store) = Completed 1"
  by code_simp


lemma checkpoints3: "map progress (success_checkpoints 3 tid row) = [10, 15, 36, 58, 80, 85, 100]"
  by (simp add: success_checkpoints_def claimed_def segmented_def chunk_checkpoint_def
      persist_begins_def persisted_def upt_conv_Cons)

lemma remdups_adj_replicate_snoc:
  "x \<noteq> y \<Longrightarrow> remdups_adj (replicate (Suc k) x @ [y]) = [x, y]"
  by (induction k) simp_all

lemma checkpoints_status:
  "map status (success_checkpoints n tid row)
     = replicate (Suc (Suc (Suc (nat n)))) ''processing'' @ [''completed'']"
  by (simp add: success_checkpoints_def claimed_def segmented_def chunk_checkpoint_def
      persist_begins_def persisted_def comp_def map_replicate_const replicate_append_same
      del: upt_Suc)

lemma checkpoints_status_sequence:
  "remdups_adj (''pending'' # map status (success_checkpoints n tid row))
     = [''pending'', ''processing'', ''completed'']"
  unfolding checkpoints_status
  using remdups_adj_replicate_snoc [of "''processing''" "''completed''" "Suc (Suc (nat n))"]
  by simp

lemma CreateJob_pending:
  "processing_jobs (snd (CreateJob s0 cid jt pr)) (fst (CreateJob s0 cid jt pr))
     = Some \<lparr>job_conversation_id = Some cid, job_type = jt, status = ''pending'',
              progress = pr, total_chunks = None, current_chunk = None, result = None,
              transcript_id = None\<rparr>"
  by (simp add: CreateJob_def Let_def)

lemma three_chunks_Run:
  "Run demo_runner env_three_chunks =
     ([\<lparr>Path = ''/tmp/listen-job-1/chunk-000.wav'', Offset = 0, Index = 1\<rparr>,
       \<lparr>Path = ''/tmp/listen-job-1/chunk-001.wav'', Offset = 15, Index = 2\<rparr>,
       \<lparr>Path = ''/tmp/listen-job-1/chunk-002.wav'', Offset = 30, Index = 3\<rparr>],
      \<lparr>res_Language = Some ''en'',
       res_Text = ''good morning everyone good morning everyone good morning everyone'',
       res_Segments =
         [\<lparr>Start = 1, End = 2.5, Text = ''good morning''\<rparr>,
          \<lparr>Start = 3, End = 4.5, Text = ''everyone''\<rparr>,
          \<lparr>Start = 16, End = 17.5, Text = ''good morning''\<rparr>,
          \<lparr>Start = 18, End = 19.5, Text = ''everyone''\<rparr>,
          \<lparr>Start = 31, End = 32.5, Text = ''good morning''\<rparr>,
          \<lparr>Start = 33, End = 34.5, Text = ''everyone''\<rparr>],
       res_Duration = Some 34.5\<rparr>,
      None)"
  by code_simp

lemma demo_store_tables:
  "transcripts demo_store = []" "transcript_segments demo_store = []"
  by (simp_all add: demo_store_def CreateJob_def empty_store_def Let_def)

lemma text_only_run:
  "fst (process (Some demo_runner) env_text_only demo_job demo_store) = Completed 1"
  "transcript_segments (snd (process (Some demo_runner) env_text_only demo_job demo_store)) = []"
  "map transcript_text
     (transcripts (snd (process (Some demo_runner) env_text_only demo_job demo_store)))
   = [''hello'']"
  "map duration
     (transcripts (snd (process (Some demo_runner) env_text_only demo_job demo_store)))
   = [None]"
  by code_simp+

lemma silence_run:
  "fst (process (Some demo_runner) env_silence demo_job demo_store) = Completed 1"
  "transcript_segments (snd (process (Some demo_runner) env_silence demo_job demo_store)) = []"
  by code_simp+

lemma three_chunks_persisted:
  "length (transcript_segments
     (snd (process (Some demo_runner) env_three_chunks demo_job demo_store))) = 6"
  "map duration
     (transcripts (snd (process (Some demo_runner) env_three_chunks demo_job demo_store)))
   = [None]"
  by code_simp+

section \<open>Failure of a stage\<close>




section \<open>Atomic persistence\<close>



section \<open>Checkpoints of a successful job\<close>

lemma chunk_progress_floor:
  assumes "1 \<le> n"
  shows "15 + 65 * k div max_go 1 n = 15 + \<lfloor>65 * real_of_int k / real_of_int n\<rfloor>"
proof -
  have "max_go 1 n = n" using assms by (simp add: max_go_def)
  moreover have "\<lfloor>65 * real_of_int k / real_of_int n\<rfloor> = (65 * k) div n"
    using floor_divide_of_int_eq [of "65 * k" n] by simp
  ultimately show ?thesis by simp
qed

lemma chunk_rows_checkpoints:
  "map (\<lambda>k. row\<lparr>status := ''processing'',
                  progress := 15 + 65 * int k div max_go 1 (int l),
                  total_chunks := Some (int l), current_chunk := Some (int k)\<rparr>) [1 ..< Suc l]
   = map (\<lambda>i. chunk_checkpoint (int l) (int i) row) [1 ..< Suc (nat (int l))]"
proof -
  have "1 \<le> int l" if "k \<in> set [1 ..< Suc l]" for k
    using that by auto
  then show ?thesis
    by (auto simp: chunk_checkpoint_def chunk_progress_floor simp del: upt_Suc)
qed

text \<open>
  C4. A job that completes has written, in this order and nothing else: \<open>processing\<close>
  with progress 10; progress 15 with \<open>total_chunks = N\<close>; for each chunk \<open>i\<close> of \<open>N\<close>
  progress \<open>15 + \<lfloor>65 i / N\<rfloor>\<close> with \<open>current_chunk = i\<close>; progress 85; and \<open>completed\<close> with
  progress 100 and the id of the transcript that it stored. With three chunks the progress
  values are 10, 15, 36, 58, 80, 85, 100. A job is created \<open>pending\<close>, so that its statuses
  run \<open>pending\<close>, \<open>processing\<close>, \<open>completed\<close>.
\<close>

theorem successful_job_checkpoints:
  assumes "processing_jobs s (JobID j) = Some row"
    and "process p e j s = (Completed tid, s')"
  shows "(\<exists>r chunks. p = Some r \<and> chunkAudio (ChunkSeconds r) (ffmpeg e) = Inr chunks
            \<and> written s s' = success_checkpoints (int (length chunks)) tid row
            \<and> processing_jobs s' (JobID j) = Some (persisted (int (length chunks)) tid row)
            \<and> tid \<in> set (map tr_id (transcripts s')))
     \<and> map progress (success_checkpoints 3 tid row) = [10, 15, 36, 58, 80, 85, 100]
     \<and> remdups_adj (''pending'' # map status (success_checkpoints n tid row))
         = [''pending'', ''processing'', ''completed'']
     \<and> map_option status
           (processing_jobs (snd (CreateJob s0 cid jt pr)) (fst (CreateJob s0 cid jt pr)))
         = Some ''pending''"
proof -
  have "\<exists>r chunks. p = Some r \<and> chunkAudio (ChunkSeconds r) (ffmpeg e) = Inr chunks
      \<and> written s s' = success_checkpoints (int (length chunks)) tid row
      \<and> processing_jobs s' (JobID j) = Some (persisted (int (length chunks)) tid row)
      \<and> tid \<in> set (map tr_id (transcripts s'))"
    using assms(1)
  proof (cases rule: process_outcome [where p = p and e = e])
    case (early st msg)
    with assms(2) show ?thesis by simp
  next
    case (chunk r chunks m msg)
    with assms(2) show ?thesis by simp
  next
    case (persist r chunks msg)
    with assms(2) show ?thesis by simp
  next
    case (success r chunks comb parts lang)
    from success(4) assms(2) have tid: "tid = transcripts_seq s + 1" by simp
    have "written s s' = success_checkpoints (int (length chunks)) tid row"
      using success(4) assms(2)
        chunk_rows_checkpoints [where row = row and l = "length chunks"]
      by (auto simp: written_def success_checkpoints_def claimed_def segmented_def
          persist_begins_def persisted_def comp_def simp del: upt_Suc)
    moreover have
      "processing_jobs s' (JobID j) = Some (persisted (int (length chunks)) tid row)"
      using success(4) assms(2) by (auto simp: persisted_def)
    moreover have "tid \<in> set (map tr_id (transcripts s'))"
      using success(4) assms(2) by auto
    ultimately show ?thesis using success(1,2) by blast
  qed
  then show ?thesis
    by (simp add: checkpoints3 checkpoints_status_sequence CreateJob_pending)
qed

theorem successful_job_checkpoints_witness:
  "processing_jobs demo_store (JobID demo_job) = Some pending_row
   \<and> fst (process (Some demo_runner) env_three_chunks demo_job demo_store) = Completed 1
   \<and> map progress
         (written demo_store
            (snd (process (Some demo_runner) env_three_chunks demo_job demo_store)))
       = [10, 15, 36, 58, 80, 85, 100]"
proof -
  let ?run = "process (Some demo_runner) env_three_chunks demo_job demo_store"
  have h: "?run = (Completed 1, snd ?run)"
    using three_chunks_exit by (simp add: prod_eq_iff)
  from successful_job_checkpoints [OF demo_job_row h, THEN conjunct1]
  obtain chunks where
    "chunkAudio (ChunkSeconds demo_runner) (ffmpeg env_three_chunks) = Inr chunks" and
    w: "written demo_store (snd ?run) = success_checkpoints (int (length chunks)) 1 pending_row"
    by auto
  then have "length chunks = 3"
    using three_chunks by (auto simp: env_three_chunks_def)
  with w show ?thesis
    using demo_job_row three_chunks_exit by (simp add: checkpoints3)
qed

section \<open>Progress over the life of a job\<close>

lemma chunk_progress_mono:
  "k \<le> k' \<Longrightarrow> 15 + 65 * int k div max_go 1 n \<le> 15 + 65 * int k' div max_go 1 n"
proof -
  assume "k \<le> k'"
  then have "65 * int k \<le> 65 * int k'" by simp
  moreover have "0 < max_go 1 n" by (simp add: max_go_def)
  ultimately have "65 * int k div max_go 1 n \<le> 65 * int k' div max_go 1 n"
    by (rule zdiv_mono1)
  then show ?thesis by simp
qed

lemma chunk_progress_bounds:
  assumes "k \<le> l"
  shows "15 \<le> 15 + 65 * int k div max_go 1 (int l)"
    and "15 + 65 * int k div max_go 1 (int l) \<le> 80"
proof -
  have pos: "0 < max_go 1 (int l)" by (simp add: max_go_def)
  have "0 \<le> 65 * int k div max_go 1 (int l)"
    using pos by (simp add: pos_imp_zdiv_nonneg_iff)
  then show "15 \<le> 15 + 65 * int k div max_go 1 (int l)" by simp
  have "65 * int k \<le> 65 * max_go 1 (int l)"
    using assms by (simp add: max_go_def)
  then have "65 * int k div max_go 1 (int l) \<le> 65 * max_go 1 (int l) div max_go 1 (int l)"
    using pos by (rule zdiv_mono1)
  also have "\<dots> = 65" using pos by simp
  finally show "15 + 65 * int k div max_go 1 (int l) \<le> 80" by simp
qed

lemma sorted_chunk_progress:
  "sorted (map (\<lambda>k. 15 + 65 * int k div max_go 1 n) [a ..< b])"
  unfolding sorted_map
  by (rule sorted_wrt_mono_rel [OF _ sorted_upt]) (use chunk_progress_mono in simp)

lemma sorted_journal_shape:
  assumes "m \<le> l" "sorted rest" "\<forall>x \<in> set rest. 80 \<le> x" "p0 \<le> 10"
  shows "sorted (p0 # [10, 15] @ map (\<lambda>k. 15 + 65 * int k div max_go 1 (int l)) [1 ..< Suc m]
                 @ rest)"
proof -
  let ?f = "\<lambda>k. 15 + 65 * int k div max_go 1 (int l)"
  define xs where "xs = map ?f [1 ..< Suc m] @ rest"
  have b: "15 \<le> ?f k \<and> ?f k \<le> 80" if "k \<in> set [1 ..< Suc m]" for k
    using that assms(1) chunk_progress_bounds [of k l] by auto
  have "sorted xs"
    unfolding xs_def sorted_append
    using assms(2,3) b sorted_chunk_progress [of "int l" 1 "Suc m"]
    by (fastforce simp del: upt_Suc)
  moreover have "15 \<le> x" if "x \<in> set xs" for x
    using that b assms(3) unfolding xs_def by (fastforce simp del: upt_Suc)
  moreover have "10 \<le> x" "p0 \<le> x" if "x \<in> set xs" for x
    using calculation(2) [OF that] assms(4) by simp_all
  ultimately have "sorted (p0 # 10 # 15 # xs)"
    using assms(4) by simp
  then show ?thesis by (simp add: xs_def del: upt_Suc)
qed

lemma sorted_tail: "sorted (x # xs) \<Longrightarrow> sorted xs"
  by simp

text \<open>
  C6. The progress values that the worker writes for a job, in the order of the writes,
  never decrease, whatever the run meets; with the value that the row had before (at most
  10: the upload handler creates it with 5) put in front, they still never decrease. The
  run adds rows of this job only to the journal, after the rows that were there.
\<close>

theorem progress_never_decreases:
  assumes "processing_jobs s (JobID j) = Some row"
  shows "sorted (map progress (written s (snd (process p e j s))))
     \<and> (progress row \<le> 10 \<longrightarrow>
          sorted (progress row # map progress (written s (snd (process p e j s)))))
     \<and> journal (snd (process p e j s))
          = journal s @ map (Pair (JobID j)) (written s (snd (process p e j s)))"
proof -
  let ?w = "written s (snd (process p e j s))"
  have "(\<forall>p0 \<le> 10. sorted (p0 # map progress ?w))
      \<and> journal (snd (process p e j s)) = journal s @ map (Pair (JobID j)) ?w"
    using assms
  proof (cases rule: process_outcome [where p = p and e = e])
    case (early st msg)
    then show ?thesis by (simp add: written_def)
  next
    case (chunk r chunks m msg)
    have "sorted (p0 # [10, 15]
        @ map (\<lambda>k. 15 + 65 * int k div max_go 1 (int (length chunks))) [1 ..< Suc (Suc m)]
        @ [100])" if "p0 \<le> 10" for p0
      using chunk(3) that by (intro sorted_journal_shape) simp_all
    with chunk(4) show ?thesis
      by (simp add: written_def comp_def del: upt_Suc)
  next
    case (persist r chunks msg)
    have "sorted (p0 # [10, 15]
        @ map (\<lambda>k. 15 + 65 * int k div max_go 1 (int (length chunks))) [1 ..< Suc (length chunks)]
        @ [85, 100])" if "p0 \<le> 10" for p0
      using that by (intro sorted_journal_shape) simp_all
    with persist(3) show ?thesis
      by (simp add: written_def comp_def del: upt_Suc)
  next
    case (success r chunks comb parts lang)
    have "sorted (p0 # [10, 15]
        @ map (\<lambda>k. 15 + 65 * int k div max_go 1 (int (length chunks))) [1 ..< Suc (length chunks)]
        @ [85, 100])" if "p0 \<le> 10" for p0
      using that by (intro sorted_journal_shape) simp_all
    with success(4) show ?thesis
      by (simp add: written_def comp_def del: upt_Suc)
  qed
  then show ?thesis
    using sorted_tail [of 10 "map progress ?w"] by auto
qed

theorem progress_never_decreases_witness:
  "processing_jobs demo_store (JobID demo_job) = Some pending_row
   \<and> progress pending_row \<le> 10
   \<and> sorted (progress pending_row
        # map progress
            (written demo_store
               (snd (process (Some demo_runner) env_second_chunk_fails demo_job demo_store))))"
  using progress_never_decreases [OF demo_job_row, of "Some demo_runner" env_second_chunk_fails]
    demo_job_row
  by (simp add: pending_row_def)

section \<open>Merging the chunks\<close>

lemma foldl_max_End:
  "foldl (\<lambda>maxEnd s. if End s > maxEnd then End s else maxEnd) m0 xs
     = Max (insert m0 (End ` set xs))"
proof (induction xs arbitrary: m0)
  case Nil
  then show ?case by simp
next
  case (Cons x xs)
  have "Max (insert (if m0 < End x then End x else m0) (End ` set xs))
      = Max (insert m0 (insert (End x) (End ` set xs)))"
    by (cases "End ` set xs = {}") (auto simp: max_def)
  with Cons show ?case by simp
qed

lemma derive_duration_Max:
  "derive_duration all = (if all = [] then None else Some (Max (End ` set all)))"
proof (cases all)
  case Nil
  then show ?thesis by (simp add: derive_duration_def)
next
  case (Cons a as)
  then have "insert (End a) (End ` set all) = End ` set all" by auto
  with Cons show ?thesis
    by (simp add: derive_duration_def foldl_max_End del: foldl_Cons)
qed

lemma run_chunks_decoded:
  "whisper e = (\<lambda>ch. OutputFile (Decoded (docs ch))) \<Longrightarrow>
   run_chunks e chs all parts lang =
     Inr (all @ merged_segments docs chs,
          parts @ filter (\<lambda>t. t \<noteq> []) (map (\<lambda>ch. chunk_text (docs ch)) chs),
          foldl pick_language lang (map (\<lambda>ch. chunk_language (docs ch)) chs))"
  by (induction chs arbitrary: all parts lang)
     (simp_all add: transcribeChunk_def parseWhisperJSON_Decoded merged_segments_def
        pick_language_def)

lemma process_chunks_decoded:
  "whisper e = (\<lambda>ch. OutputFile (Decoded (docs ch))) \<Longrightarrow>
   fst (process_chunks e jobID n i chs comb parts lang s) =
     Inr (comb @ merged_segments docs chs,
          parts @ filter (\<lambda>t. t \<noteq> []) (map (\<lambda>ch. chunk_text (docs ch)) chs),
          foldl pick_language lang (map (\<lambda>ch. chunk_language (docs ch)) chs))"
  by (induction chs arbitrary: i comb parts lang s)
     (simp_all add: transcribeChunk_def parseWhisperJSON_Decoded merged_segments_def
        pick_language_def Let_def)

lemma Run_result:
  assumes "Run r e = (chunks, res, None)"
  shows "\<exists>all parts lang. chunkAudio (ChunkSeconds r) (ffmpeg e) = Inr chunks
      \<and> run_chunks e chunks [] [] None = Inr (all, parts, lang)
      \<and> res = \<lparr>res_Language = lang, res_Text = Join parts, res_Segments = all,
                res_Duration = derive_duration all\<rparr>"
  using assms
  by (auto simp: Run_def split: if_splits sum.splits prod.splits)

lemma isBlank_isSpace: "isBlank c \<Longrightarrow> isSpace c"
  by (auto simp: isBlank_def isSpace_def)

lemma stringsTrim_trimmed:
  assumes "trimmed t"
  shows "stringsTrim t = t"
proof (cases "t = []")
  case True
  then show ?thesis by (simp add: stringsTrim_def)
next
  case False
  with assms have h: "\<not> isBlank (hd t)" and l: "\<not> isBlank (last t)"
    using isBlank_isSpace by (auto simp: trimmed_def)
  from False h have 1: "dropWhile isBlank t = t"
    by (rule dropWhile_hd_id)
  have "rev t \<noteq> []" and "hd (rev t) = last t"
    using False by (simp_all add: hd_rev)
  with l have 2: "dropWhile isBlank (rev t) = rev t"
    by (metis dropWhile_hd_id)
  show ?thesis by (simp add: stringsTrim_def 1 2)
qed

lemma merged_segments_Text:
  "sg \<in> set (merged_segments docs chs) \<Longrightarrow> Text sg \<noteq> [] \<and> trimmed (Text sg)"
  using chunk_segments_Text
  by (fastforce simp: merged_segments_def shift_segment_def list_all_iff)

lemma merged_segments_kept:
  "filter (\<lambda>g. stringsTrim (in_Text g) \<noteq> [])
     (map (\<lambda>sg. \<lparr>StartTime = Start sg, EndTime = End sg, in_Text = Text sg\<rparr>)
        (filter (\<lambda>sg. TrimSpace (Text sg) \<noteq> []) (merged_segments docs chs)))
   = map (\<lambda>sg. \<lparr>StartTime = Start sg, EndTime = End sg, in_Text = Text sg\<rparr>)
       (merged_segments docs chs)"
proof -
  have "TrimSpace (Text sg) \<noteq> [] \<and> stringsTrim (Text sg) \<noteq> []"
    if "sg \<in> set (merged_segments docs chs)" for sg
    using merged_segments_Text [OF that] by (simp add: TrimSpace_trimmed stringsTrim_trimmed)
  then show ?thesis
    by (simp add: filter_map comp_def cong: filter_cong)
qed

lemma merged_segments_Nil:
  "merged_segments docs chs = [] \<Longrightarrow> ch \<in> set chs \<Longrightarrow> chunk_segments (docs ch) = []"
  by (auto simp: merged_segments_def)

lemma chunk_text_no_segments:
  "chunk_segments w = [] \<Longrightarrow> chunk_text w = TrimSpace (w_Text w)"
  by (simp add: chunk_text_def)

lemma process_completed_decoded:
  assumes dec: "whisper e = (\<lambda>ch. OutputFile (Decoded (docs ch)))"
    and row: "processing_jobs s (JobID j) = Some row"
    and run: "process p e j s = (Completed tid, s')"
  shows "\<exists>r chs. p = Some r \<and> chunkAudio (ChunkSeconds r) (ffmpeg e) = Inr chs
      \<and> tid = transcripts_seq s + 1
      \<and> transcripts s' = transcripts s @
           [\<lparr>tr_id = tid, tr_conversation_id = ConversationID j, file_name = FileName j,
             transcript_text = merged_text docs chs, duration = None,
             language = merged_language docs chs,
             transcription_model = Some ''whisper.cpp'',
             audio_file_url = ''/api/audio/'' @ Itoa (ConversationID j)\<rparr>]
      \<and> transcript_segments s' = transcript_segments s @
           map (\<lambda>sg. \<lparr>sg_transcript_id = tid, sg_start_time = Start sg,
                       sg_end_time = End sg, sg_text = Text sg\<rparr>) (merged_segments docs chs)"
  using row
proof (cases rule: process_outcome [where p = p and e = e])
  case (early st msg)
  with run show ?thesis by simp
next
  case (chunk r chunks m msg)
  with run show ?thesis by simp
next
  case (persist r chunks msg)
  with run show ?thesis by simp
next
  case (success r chunks comb parts lang)
  from success(3) process_chunks_decoded [OF dec, where chs = chunks and comb = "[]"
      and parts = "[]" and lang = None]
  have acc: "comb = merged_segments docs chunks"
    "parts = filter (\<lambda>t. t \<noteq> []) (map (\<lambda>ch. chunk_text (docs ch)) chunks)"
    "lang = merged_language docs chunks"
    by (simp_all add: merged_language_def)
  from success(4) run have tid: "tid = transcripts_seq s + 1" by simp
  show ?thesis
    using success(1,2,4) run tid
    unfolding acc merged_segments_kept
    by (auto simp: merged_text_def segment_row_of_def comp_def)
qed

section \<open>Which failure ends a run\<close>

text \<open>
  The exit of \<open>process\<close> names the stage that failed: no pipeline; the temporary
  directory; chunking; the first chunk on which the engine fails; the transaction (here its
  first statement).
\<close>

lemma stage_failure_exits:
  "p = None \<Longrightarrow> fst (process p e j s) = Failed Configure ''pipeline not configured''"
  "p = Some r \<Longrightarrow> MkdirTemp e = Inl m \<Longrightarrow> fst (process p e j s) = Failed TempDir m"
  "p = Some r \<Longrightarrow> MkdirTemp e = Inr d \<Longrightarrow> chunkAudio (ChunkSeconds r) (ffmpeg e) = Inl m \<Longrightarrow>
     fst (process p e j s) = Failed Chunking m"
  "p = Some r \<Longrightarrow> MkdirTemp e = Inr d \<Longrightarrow> chunkAudio (ChunkSeconds r) (ffmpeg e) = Inr chunks \<Longrightarrow>
     k < length chunks \<Longrightarrow> \<forall>i<k. \<exists>ok. transcribeChunk (whisper e (chunks ! i)) = Inr ok \<Longrightarrow>
     transcribeChunk (whisper e (chunks ! k)) = Inl m \<Longrightarrow>
     fst (process p e j s) = Failed (Transcription (int k + 1)) m"
  "p = Some r \<Longrightarrow> MkdirTemp e = Inr d \<Longrightarrow> chunkAudio (ChunkSeconds r) (ffmpeg e) = Inr chunks \<Longrightarrow>
     whisper e = (\<lambda>ch. OutputFile (Decoded (docs ch))) \<Longrightarrow> sqlite e BeginTx = Some m \<Longrightarrow>
     fst (process p e j s) = Failed Persistence m"
proof -
  show "p = None \<Longrightarrow> fst (process p e j s) = Failed Configure ''pipeline not configured''"
    by (simp add: process_def Let_def)
  show "p = Some r \<Longrightarrow> MkdirTemp e = Inl m \<Longrightarrow> fst (process p e j s) = Failed TempDir m"
    by (simp add: process_def Let_def)
  show "p = Some r \<Longrightarrow> MkdirTemp e = Inr d \<Longrightarrow> chunkAudio (ChunkSeconds r) (ffmpeg e) = Inl m \<Longrightarrow>
     fst (process p e j s) = Failed Chunking m"
    by (simp add: process_def Let_def)
next
  let ?s2 = "\<lambda>chunks. UpdateJobProgress
                 (UpdateJobProgress s (JobID j) ''processing'' 10 None None None None)
                 (JobID j) ''processing'' 15 (Some (int (length chunks))) (Some 0) None None"
  assume a: "p = Some r" "MkdirTemp e = Inr d" "chunkAudio (ChunkSeconds r) (ffmpeg e) = Inr chunks"
    and k: "k < length chunks" "\<forall>i<k. \<exists>ok. transcribeChunk (whisper e (chunks ! i)) = Inr ok"
      "transcribeChunk (whisper e (chunks ! k)) = Inl m"
  have "fst (process_chunks e (JobID j) (int (length chunks)) 0 chunks [] [] None (?s2 chunks))
      = Inl (int (0 + k) + 1, m)"
    using k by (rule process_chunks_first_failure)
  then show "fst (process p e j s) = Failed (Transcription (int k + 1)) m"
    using process_exit_of_chunks [OF a] by simp
next
  assume a: "p = Some r" "MkdirTemp e = Inr d" "chunkAudio (ChunkSeconds r) (ffmpeg e) = Inr chunks"
    and dec: "whisper e = (\<lambda>ch. OutputFile (Decoded (docs ch)))"
    and bt: "sqlite e BeginTx = Some m"
  let ?pc = "process_chunks e (JobID j) (int (length chunks)) 0 chunks [] [] None
              (UpdateJobProgress
                 (UpdateJobProgress s (JobID j) ''processing'' 10 None None None None)
                 (JobID j) ''processing'' 15 (Some (int (length chunks))) (Some 0) None None)"
  obtain acc where "fst ?pc = Inr acc"
    using process_chunks_decoded [OF dec] by blast
  then have pc: "?pc = (Inr acc, snd ?pc)"
    by (metis prod.collapse)
  obtain comb parts lang where acc: "acc = (comb, parts, lang)" by (cases acc) auto
  show "fst (process p e j s) = Failed Persistence m"
    unfolding process_after_chunking [OF a]
    by (subst pc) (simp add: acc CreateTranscriptWithSegments_def bt)
qed

section \<open>Records that are skipped\<close>

lemma usable_record_chain:
  "usable_record s = (first_usable fallback_chain s \<noteq> None \<and> TrimSpace (seg_Text s) \<noteq> [])"
  by (simp add: usable_record_def segTimesSeconds_chain)

lemma chunk_segments_texts:
  "map Text (chunk_segments w)
     = map (\<lambda>s. TrimSpace (seg_Text s)) (filter usable_record (raw_records w))"
  by (simp add: chunk_segments_def normalise_record_def comp_def)

lemma process_decoded_not_transcription:
  assumes dec: "whisper e = (\<lambda>ch. OutputFile (Decoded (docs ch)))"
  shows "fst (process p e j s) \<noteq> Failed (Transcription k) msg"
proof (cases p)
  case None
  then show ?thesis by (simp add: process_def Let_def)
next
  case (Some r)
  show ?thesis
  proof (cases "MkdirTemp e")
    case (Inl a)
    with Some show ?thesis by (simp add: process_def Let_def)
  next
    case (Inr d)
    show ?thesis
    proof (cases "chunkAudio (ChunkSeconds r) (ffmpeg e)")
      case (Inl a)
      with Some Inr show ?thesis by (simp add: process_def Let_def)
    next
      case chunks: (Inr chunks)
      let ?pc = "process_chunks e (JobID j) (int (length chunks)) 0 chunks [] [] None
              (UpdateJobProgress
                 (UpdateJobProgress s (JobID j) ''processing'' 10 None None None None)
                 (JobID j) ''processing'' 15 (Some (int (length chunks))) (Some 0) None None)"
      obtain acc where "fst ?pc = Inr acc"
        using process_chunks_decoded [OF dec] by blast
      then have pc: "?pc = (Inr acc, snd ?pc)"
        by (metis prod.collapse)
      obtain comb parts lang where acc: "acc = (comb, parts, lang)" by (cases acc) auto
      show ?thesis
        unfolding process_after_chunking [OF Some Inr chunks]
        by (subst pc) (simp add: acc split: prod.splits sum.splits)
    qed
  qed
qed

text \<open>
  C7. The segments of a chunk are made of exactly those raw records for which some strategy
  gives the times and whose text is not empty after trimming, in their order; the others
  are skipped without an error and are in neither the segments nor the text derived from
  them. The raw records are those of the list that the adapter reads: \<open>segments\<close>, or
  \<open>transcription\<close> when \<open>segments\<close> is empty. Output that decodes never makes the
  adapter fail, so that a chunk without usable records fails neither the runner's loop nor
  the worker. In \<open>doc_two_records\<close> the record with the blank text is dropped.
\<close>

theorem unusable_records_are_skipped:
  "parseWhisperJSON (Decoded w) =
     Inr (map normalise_record (filter usable_record (raw_records w)),
          (if TrimSpace (w_Text w) \<noteq> [] then TrimSpace (w_Text w)
           else Join (map (\<lambda>s. TrimSpace (seg_Text s)) (filter usable_record (raw_records w)))),
          chunk_language w)
   \<and> usable_record sg
       = (first_usable fallback_chain sg \<noteq> None \<and> TrimSpace (seg_Text sg) \<noteq> [])
   \<and> transcribeChunk (OutputFile (Decoded w)) = parseWhisperJSON (Decoded w)
   \<and> (\<exists>acc. run_chunks (e\<lparr>whisper := \<lambda>ch. OutputFile (Decoded (docs ch))\<rparr>) chs all parts lang
              = Inr acc)
   \<and> (\<forall>k msg. fst (process p (e\<lparr>whisper := \<lambda>ch. OutputFile (Decoded (docs ch))\<rparr>) j s)
                  \<noteq> Failed (Transcription k) msg)
   \<and> parseWhisperJSON (Decoded doc_two_records) =
       Inr ([\<lparr>Start = 1, End = 2.5, Text = ''good morning''\<rparr>,
             \<lparr>Start = 3, End = 4.5, Text = ''everyone''\<rparr>],
            ''good morning everyone'', Some ''en'')"
proof -
  have 1: "parseWhisperJSON (Decoded w) =
     Inr (map normalise_record (filter usable_record (raw_records w)),
          (if TrimSpace (w_Text w) \<noteq> [] then TrimSpace (w_Text w)
           else Join (map (\<lambda>s. TrimSpace (seg_Text s)) (filter usable_record (raw_records w)))),
          chunk_language w)"
    by (simp add: parseWhisperJSON_Decoded chunk_text_def chunk_segments_texts)
       (simp add: chunk_segments_def)
  have 2: "transcribeChunk (OutputFile (Decoded w)) = parseWhisperJSON (Decoded w)"
    by (simp add: transcribeChunk_def)
  have 3: "\<exists>acc. run_chunks (e\<lparr>whisper := \<lambda>ch. OutputFile (Decoded (docs ch))\<rparr>) chs all parts lang
              = Inr acc"
    by (simp add: run_chunks_decoded [where docs = docs])
  have 4: "\<forall>k msg. fst (process p (e\<lparr>whisper := \<lambda>ch. OutputFile (Decoded (docs ch))\<rparr>) j s)
                  \<noteq> Failed (Transcription k) msg"
    by (intro allI process_decoded_not_transcription [where docs = docs]) simp
  have 5: "parseWhisperJSON (Decoded doc_two_records) =
       Inr ([\<lparr>Start = 1, End = 2.5, Text = ''good morning''\<rparr>,
             \<lparr>Start = 3, End = 4.5, Text = ''everyone''\<rparr>],
            ''good morning everyone'', Some ''en'')"
    by code_simp
  show ?thesis
    using 1 2 3 4 5 usable_record_chain [of sg] by blast
qed

section \<open>The text of the transcript\<close>

text \<open>
  C8. When the output of every chunk decodes, the text of the result of \<open>Run\<close>, and the
  text of the transcript that a completed job stores, is the texts of the chunks that are
  not empty, in the order of the chunks, joined with one blank. The text of a chunk
  (\<open>chunk_text\<close>) is the chunk-level text field of the engine when that is not empty, and
  else the texts of the surviving segments of the chunk joined with one blank; texts are
  taken without the white space around them.
\<close>

theorem transcript_text_joins_chunk_texts:
  assumes "whisper e = (\<lambda>ch. OutputFile (Decoded (docs ch)))"
  shows "(Run r e = (chunks, res, None) \<longrightarrow> res_Text res = merged_text docs chunks)
     \<and> (processing_jobs s (JobID j) = Some row \<and> process p e j s = (Completed tid, s') \<longrightarrow>
          (\<exists>r' chs tr. p = Some r' \<and> chunkAudio (ChunkSeconds r') (ffmpeg e) = Inr chs
              \<and> transcripts s' = transcripts s @ [tr] \<and> tr_id tr = tid
              \<and> transcript_text tr = merged_text docs chs))"
proof (intro conjI impI)
  assume "Run r e = (chunks, res, None)"
  from Run_result [OF this] obtain all parts lang where
    "run_chunks e chunks [] [] None = Inr (all, parts, lang)" and
    "res = \<lparr>res_Language = lang, res_Text = Join parts, res_Segments = all,
            res_Duration = derive_duration all\<rparr>"
    by blast
  then show "res_Text res = merged_text docs chunks"
    using run_chunks_decoded [OF assms, of chunks "[]" "[]" None]
    by (simp add: merged_text_def)
next
  assume "processing_jobs s (JobID j) = Some row \<and> process p e j s = (Completed tid, s')"
  then show "\<exists>r' chs tr. p = Some r' \<and> chunkAudio (ChunkSeconds r') (ffmpeg e) = Inr chs
              \<and> transcripts s' = transcripts s @ [tr] \<and> tr_id tr = tid
              \<and> transcript_text tr = merged_text docs chs"
    using process_completed_decoded [OF assms, of s j row p tid s'] by fastforce
qed

theorem transcript_text_joins_chunk_texts_witness:
  "whisper env_three_chunks = (\<lambda>ch. OutputFile (Decoded doc_two_records))
   \<and> snd (snd (Run demo_runner env_three_chunks)) = None
   \<and> merged_text (\<lambda>ch. doc_two_records) (fst (Run demo_runner env_three_chunks))
       = ''good morning everyone good morning everyone good morning everyone''
   \<and> processing_jobs demo_store (JobID demo_job) = Some pending_row
   \<and> fst (process (Some demo_runner) env_three_chunks demo_job demo_store) = Completed 1
   \<and> map transcript_text
         (transcripts (snd (process (Some demo_runner) env_three_chunks demo_job demo_store)))
       = [''good morning everyone good morning everyone good morning everyone'']"
proof -
  let ?docs = "\<lambda>ch::Chunk. doc_two_records"
  let ?run = "process (Some demo_runner) env_three_chunks demo_job demo_store"
  let ?chunks = "[\<lparr>Path = ''/tmp/listen-job-1/chunk-000.wav'', Offset = 0, Index = 1\<rparr>,
       \<lparr>Path = ''/tmp/listen-job-1/chunk-001.wav'', Offset = 15, Index = 2\<rparr>,
       \<lparr>Path = ''/tmp/listen-job-1/chunk-002.wav'', Offset = 30, Index = 3\<rparr>]"
  have dec: "whisper env_three_chunks = (\<lambda>ch. OutputFile (Decoded (?docs ch)))"
    by (simp add: env_three_chunks_def)
  define s' where "s' = snd ?run"
  have h: "?run = (Completed 1, s')"
    using three_chunks_exit by (simp add: prod_eq_iff s'_def)
  note inst = transcript_text_joins_chunk_texts [OF dec, of demo_runner _ _ demo_store demo_job
      pending_row "Some demo_runner" 1 s']
  from inst [THEN conjunct1, rule_format, OF three_chunks_Run]
  have 1: "merged_text ?docs ?chunks
      = ''good morning everyone good morning everyone good morning everyone''"
    by simp
  from inst [THEN conjunct2, rule_format, OF conjI [OF demo_job_row h]]
  obtain chs tr where "chunkAudio (ChunkSeconds demo_runner) (ffmpeg env_three_chunks) = Inr chs"
    and "transcripts s' = transcripts demo_store @ [tr]"
    and "transcript_text tr = merged_text ?docs chs"
    by auto
  then have 2: "map transcript_text (transcripts (snd ?run)) = [merged_text ?docs ?chunks]"
    using three_chunks by (auto simp: env_three_chunks_def demo_store_tables s'_def)
  show ?thesis
    using dec 1 2 demo_job_row three_chunks_exit by (simp add: three_chunks_Run)
qed

section \<open>Segmentation\<close>






section \<open>Duration and text of a transcript\<close>

text \<open>
  C2, as the code has it. The result of a successful \<open>Run\<close> has for duration the largest
  end of its segments, and no duration when it has no segment. A completed job whose
  transcript has no segment row is stored without a duration and with the text made of the
  chunk-level texts of the engine that are not empty, joined with one blank: the empty
  string when no chunk has such a text.
\<close>

theorem duration_and_empty_transcript:
  "(Run r e = (chunks, res, None) \<longrightarrow>
      res_Duration res
        = (if res_Segments res = [] then None else Some (Max (End ` set (res_Segments res)))))
   \<and> (whisper e = (\<lambda>ch. OutputFile (Decoded (docs ch)))
        \<and> processing_jobs s (JobID j) = Some row \<and> process p e j s = (Completed tid, s')
        \<and> filter (\<lambda>g. sg_transcript_id g = tid) (transcript_segments s') = [] \<longrightarrow>
       (\<exists>r' chs tr. p = Some r' \<and> chunkAudio (ChunkSeconds r') (ffmpeg e) = Inr chs
           \<and> transcripts s' = transcripts s @ [tr] \<and> tr_id tr = tid
           \<and> duration tr = None
           \<and> transcript_text tr
               = Join (filter (\<lambda>t. t \<noteq> []) (map (\<lambda>ch. TrimSpace (w_Text (docs ch))) chs))
           \<and> (list_all (\<lambda>ch. TrimSpace (w_Text (docs ch)) = []) chs \<longrightarrow>
                 transcript_text tr = [])))"
proof (intro conjI impI)
  assume "Run r e = (chunks, res, None)"
  from Run_result [OF this] show "res_Duration res
        = (if res_Segments res = [] then None else Some (Max (End ` set (res_Segments res))))"
    by (auto simp: derive_duration_Max)
next
  assume a: "whisper e = (\<lambda>ch. OutputFile (Decoded (docs ch)))
        \<and> processing_jobs s (JobID j) = Some row \<and> process p e j s = (Completed tid, s')
        \<and> filter (\<lambda>g. sg_transcript_id g = tid) (transcript_segments s') = []"
  then have dec: "whisper e = (\<lambda>ch. OutputFile (Decoded (docs ch)))"
    and row: "processing_jobs s (JobID j) = Some row"
    and run: "process p e j s = (Completed tid, s')"
    and none: "filter (\<lambda>g. sg_transcript_id g = tid) (transcript_segments s') = []"
    by simp_all
  from process_completed_decoded [OF dec row run] obtain r' chs where
    p: "p = Some r'" and ch: "chunkAudio (ChunkSeconds r') (ffmpeg e) = Inr chs" and
    tr: "transcripts s' = transcripts s @
           [\<lparr>tr_id = tid, tr_conversation_id = ConversationID j, file_name = FileName j,
             transcript_text = merged_text docs chs, duration = None,
             language = merged_language docs chs,
             transcription_model = Some ''whisper.cpp'',
             audio_file_url = ''/api/audio/'' @ Itoa (ConversationID j)\<rparr>]" and
    sg: "transcript_segments s' = transcript_segments s @
           map (\<lambda>sg. \<lparr>sg_transcript_id = tid, sg_start_time = Start sg,
                       sg_end_time = End sg, sg_text = Text sg\<rparr>) (merged_segments docs chs)"
    by blast
  from none sg have "merged_segments docs chs = []"
    by (simp add: filter_map comp_def)
  then have "chunk_text (docs c) = TrimSpace (w_Text (docs c))" if "c \<in> set chs" for c
    using that by (intro chunk_text_no_segments merged_segments_Nil)
  then have eq: "map (\<lambda>ch. chunk_text (docs ch)) chs
      = map (\<lambda>ch. TrimSpace (w_Text (docs ch))) chs"
    by simp
  have mt: "merged_text docs chs
      = Join (filter (\<lambda>t. t \<noteq> []) (map (\<lambda>ch. TrimSpace (w_Text (docs ch))) chs))"
    unfolding merged_text_def eq by (rule refl)
  have "Join (filter (\<lambda>t. t \<noteq> []) (map (\<lambda>ch. TrimSpace (w_Text (docs ch))) chs)) = []"
    if "list_all (\<lambda>ch. TrimSpace (w_Text (docs ch)) = []) chs"
  proof -
    from that have "filter (\<lambda>t. t \<noteq> []) (map (\<lambda>ch. TrimSpace (w_Text (docs ch))) chs) = []"
      by (auto simp: filter_empty_conv list_all_iff)
    then show ?thesis by simp
  qed
  with p ch tr mt show "\<exists>r' chs tr. p = Some r' \<and> chunkAudio (ChunkSeconds r') (ffmpeg e) = Inr chs
           \<and> transcripts s' = transcripts s @ [tr] \<and> tr_id tr = tid
           \<and> duration tr = None
           \<and> transcript_text tr
               = Join (filter (\<lambda>t. t \<noteq> []) (map (\<lambda>ch. TrimSpace (w_Text (docs ch))) chs))
           \<and> (list_all (\<lambda>ch. TrimSpace (w_Text (docs ch)) = []) chs \<longrightarrow>
                 transcript_text tr = [])"
    by force
qed

theorem duration_and_empty_transcript_witness:
  "snd (snd (Run demo_runner env_three_chunks)) = None
   \<and> res_Segments (fst (snd (Run demo_runner env_three_chunks))) \<noteq> []
   \<and> res_Duration (fst (snd (Run demo_runner env_three_chunks)))
       = Some (Max (End ` set (res_Segments (fst (snd (Run demo_runner env_three_chunks))))))
   \<and> res_Duration (fst (snd (Run demo_runner env_three_chunks))) = Some 34.5
   \<and> whisper env_silence = (\<lambda>ch. OutputFile (Decoded doc_silence))
   \<and> processing_jobs demo_store (JobID demo_job) = Some pending_row
   \<and> fst (process (Some demo_runner) env_silence demo_job demo_store) = Completed 1
   \<and> transcript_segments (snd (process (Some demo_runner) env_silence demo_job demo_store)) = []
   \<and> map transcript_text
         (transcripts (snd (process (Some demo_runner) env_silence demo_job demo_store))) = [[]]
   \<and> map duration
         (transcripts (snd (process (Some demo_runner) env_silence demo_job demo_store)))
       = [None]"
proof -
  let ?docs = "\<lambda>ch::Chunk. doc_silence"
  let ?run = "process (Some demo_runner) env_silence demo_job demo_store"
  define s' where "s' = snd ?run"
  have dec: "whisper env_silence = (\<lambda>ch. OutputFile (Decoded (?docs ch)))"
    by (simp add: env_silence_def)
  have h: "?run = (Completed 1, s')"
    using silence_run(1) by (simp add: prod_eq_iff s'_def)
  have none: "filter (\<lambda>g. sg_transcript_id g = 1) (transcript_segments s') = []"
    using silence_run(2) by (simp add: s'_def)
  have blank: "TrimSpace (w_Text doc_silence) = []"
    by code_simp
  from duration_and_empty_transcript [THEN conjunct1, rule_format, OF three_chunks_Run]
  have 1: "res_Duration (fst (snd (Run demo_runner env_three_chunks)))
       = Some (Max (End ` set (res_Segments (fst (snd (Run demo_runner env_three_chunks))))))"
    by (simp add: three_chunks_Run)
  from duration_and_empty_transcript [THEN conjunct2, rule_format,
      OF conjI [OF dec conjI [OF demo_job_row conjI [OF h none]]]]
  obtain chs tr where "chunkAudio (ChunkSeconds demo_runner) (ffmpeg env_silence) = Inr chs"
    and "transcripts s' = transcripts demo_store @ [tr]" and "duration tr = None"
    and "list_all (\<lambda>ch. TrimSpace (w_Text doc_silence) = []) chs \<longrightarrow> transcript_text tr = []"
    by auto
  then have 2: "map transcript_text (transcripts (snd ?run)) = [[]]"
    "map duration (transcripts (snd ?run)) = [None]"
    using blank by (simp_all add: demo_store_tables s'_def list_all_iff)
  show ?thesis
    using 1 2 dec demo_job_row silence_run by (simp add: three_chunks_Run)
qed

text \<open>
  A chunk-level text is kept even when no record of the chunk survives: with the output
  \<open>doc_text_only\<close> the completed job has no segment row and the text \<open>hello\<close>. The worker
  hands no duration to the store: with three chunks of two segments each, the six segment
  rows are stored and the duration of the transcript is null.
\<close>

theorem empty_transcript_counterexample:
  "fst (process (Some demo_runner) env_text_only demo_job demo_store) = Completed 1
   \<and> transcript_segments (snd (process (Some demo_runner) env_text_only demo_job demo_store))
       = []
   \<and> map transcript_text
         (transcripts (snd (process (Some demo_runner) env_text_only demo_job demo_store)))
       = [''hello'']
   \<and> fst (process (Some demo_runner) env_three_chunks demo_job demo_store) = Completed 1
   \<and> length (transcript_segments
         (snd (process (Some demo_runner) env_three_chunks demo_job demo_store))) = 6
   \<and> map duration
         (transcripts (snd (process (Some demo_runner) env_three_chunks demo_job demo_store)))
       = [None]"
  using text_only_run three_chunks_exit three_chunks_persisted by simp

end
